theory Spec2Isabelle
  imports Main
begin

section \<open>TcpSocket::Bind and TcpSocket::Connect (lib/base/tcpsocket.cpp)\<close>

text \<open>
  The two functions resolve a node and a service with \<^verbatim>\<open>getaddrinfo\<close> and try the
  returned entries one after the other. Everything they do goes through calls of the
  system (\<^verbatim>\<open>getaddrinfo\<close>, \<^verbatim>\<open>socket\<close>, \<^verbatim>\<open>setsockopt\<close>, \<^verbatim>\<open>bind\<close>, \<^verbatim>\<open>connect\<close>,
  \<^verbatim>\<open>closesocket\<close>, \<^verbatim>\<open>freeaddrinfo\<close>) and of the owning object (\<^verbatim>\<open>SetFD\<close>,
  \<^verbatim>\<open>GetFD\<close>, \<^verbatim>\<open>Log\<close>). The embedding passes the state explicitly, takes the
  answers of the system as data, and records every call in a trace.
\<close>

subsection \<open>Data\<close>

text \<open>
  \<^verbatim>\<open>struct addrinfo\<close>. The field \<^verbatim>\<open>ai_next\<close> is the list structure: a result of
  \<^verbatim>\<open>getaddrinfo\<close> is a HOL list, \<^verbatim>\<open>NULL\<close> the empty list. \<^verbatim>\<open>ai_canonname\<close> is
  never read. An address is its bytes; the hints carry no address.
\<close>

record addrinfo =
  ai_flags :: int
  ai_family :: int
  ai_socktype :: int
  ai_protocol :: int
  ai_addrlen :: nat
  ai_addr :: "nat list"

text \<open>
  Constants of the system headers, which are not part of the repository. The values are
  those of Linux; no proof depends on them.
\<close>

definition AF_UNSPEC :: int where "AF_UNSPEC = 0"
definition SOCK_STREAM :: int where "SOCK_STREAM = 1"
definition IPPROTO_TCP :: int where "IPPROTO_TCP = 6"
definition AI_PASSIVE :: int where "AI_PASSIVE = 1"
definition INVALID_SOCKET :: int where "INVALID_SOCKET = - 1"

datatype socklevel = IPPROTO_IPV6 | SOL_SOCKET
datatype sockoption = IPV6_V6ONLY | SO_REUSEADDR

text \<open>
  What the system answers to one call: success with a value, or failure with the error
  number that the failing call leaves in \<^verbatim>\<open>errno\<close> (\<^verbatim>\<open>WSAGetLastError()\<close> on
  Windows). A descriptor returned by a successful \<^verbatim>\<open>socket\<close> is not negative.
\<close>

datatype 'a sysres = Success 'a | Failure int

text \<open>
  The answers of the system to the calls made for one entry of the result list, in the
  order in which the loop body makes them. An answer to a call that is not made is
  not looked at.
\<close>

record answers =
  on_socket :: "nat sysres"
  on_v6only :: "unit sysres"
  on_reuseaddr :: "unit sysres"
  on_bind :: "unit sysres"
  on_connect :: "unit sysres"
  on_close :: "unit sysres"

text \<open>
  An entry of the result list, together with the answers that the system gives to the
  calls made for it.
\<close>

type_synonym candidate = "addrinfo \<times> answers"

text \<open>
  The resolver: from the node (\<open>None\<close> for \<^verbatim>\<open>NULL\<close>), the service and the hints to the
  return code of \<^verbatim>\<open>getaddrinfo\<close> and the result list. The list is meaningful only
  when the code is 0.
\<close>

type_synonym resolver = "string option \<Rightarrow> string \<Rightarrow> addrinfo \<Rightarrow> int \<times> candidate list"

datatype event =
  Ev_getaddrinfo "string option" string addrinfo
| Ev_socket int int int int
| Ev_setsockopt int socklevel sockoption int
| Ev_bind int "nat list" nat
| Ev_connect int "nat list" nat
| Ev_closesocket int
| Ev_freeaddrinfo
| Ev_SetFD int
| Ev_Log_critical string

text \<open>
  The state of a call: the descriptor of the owning socket object (\<open>m_FD\<close>), the
  last error of the platform (\<open>errno\<close>), the two locals \<^verbatim>\<open>int error\<close> and
  \<^verbatim>\<open>const char *func\<close> (declared without an initialiser: \<open>None\<close> until written), and
  the calls made so far, oldest first.
\<close>

record state =
  m_FD :: int
  errno :: int
  error :: "int option"
  func :: "string option"
  trace :: "event list"

text \<open>
  The exception \<^verbatim>\<open>socket_error\<close> with its two attachments:
  \<^verbatim>\<open>boost::errinfo_api_function\<close> and one of the three error infos.
\<close>

datatype errinfo =
  errinfo_getaddrinfo_error int
| errinfo_errno int
| errinfo_win32_error int

datatype exn = socket_error string errinfo

text \<open>
  How a call ends: it returns, it throws, or it reads a local that was never written
  (undefined behaviour in C++).
\<close>

datatype outcome = Returns | Throws exn | Undefined_read

subsection \<open>The calls\<close>

definition emit :: "event \<Rightarrow> state \<Rightarrow> state" where
  "emit ev st = st\<lparr>trace := trace st @ [ev]\<rparr>"

definition getaddrinfo ::
  "resolver \<Rightarrow> string option \<Rightarrow> string \<Rightarrow> addrinfo \<Rightarrow> state \<Rightarrow> (int \<times> candidate list) \<times> state" where
  "getaddrinfo gai node service hints st =
     (gai node service hints, emit (Ev_getaddrinfo node service hints) st)"

definition socket :: "int \<Rightarrow> int \<Rightarrow> int \<Rightarrow> nat sysres \<Rightarrow> state \<Rightarrow> int \<times> state" where
  "socket family ty protocol ans st =
     (case ans of
        Success d \<Rightarrow> (int d, emit (Ev_socket family ty protocol (int d)) st)
      | Failure e \<Rightarrow>
          (INVALID_SOCKET, emit (Ev_socket family ty protocol INVALID_SOCKET) (st\<lparr>errno := e\<rparr>)))"

definition setsockopt ::
  "int \<Rightarrow> socklevel \<Rightarrow> sockoption \<Rightarrow> int \<Rightarrow> unit sysres \<Rightarrow> state \<Rightarrow> int \<times> state" where
  "setsockopt fd level optname optval ans st =
     (case ans of
        Success _ \<Rightarrow> (0, emit (Ev_setsockopt fd level optname optval) st)
      | Failure e \<Rightarrow> (- 1, emit (Ev_setsockopt fd level optname optval) (st\<lparr>errno := e\<rparr>)))"

definition bind_call :: "int \<Rightarrow> nat list \<Rightarrow> nat \<Rightarrow> unit sysres \<Rightarrow> state \<Rightarrow> int \<times> state" where
  "bind_call fd addr len ans st =
     (case ans of
        Success _ \<Rightarrow> (0, emit (Ev_bind fd addr len) st)
      | Failure e \<Rightarrow> (- 1, emit (Ev_bind fd addr len) (st\<lparr>errno := e\<rparr>)))"

definition connect_call :: "int \<Rightarrow> nat list \<Rightarrow> nat \<Rightarrow> unit sysres \<Rightarrow> state \<Rightarrow> int \<times> state" where
  "connect_call fd addr len ans st =
     (case ans of
        Success _ \<Rightarrow> (0, emit (Ev_connect fd addr len) st)
      | Failure e \<Rightarrow> (- 1, emit (Ev_connect fd addr len) (st\<lparr>errno := e\<rparr>)))"

definition closesocket :: "int \<Rightarrow> unit sysres \<Rightarrow> state \<Rightarrow> int \<times> state" where
  "closesocket fd ans st =
     (case ans of
        Success _ \<Rightarrow> (0, emit (Ev_closesocket fd) st)
      | Failure e \<Rightarrow> (- 1, emit (Ev_closesocket fd) (st\<lparr>errno := e\<rparr>)))"

definition freeaddrinfo :: "candidate list \<Rightarrow> state \<Rightarrow> state" where
  "freeaddrinfo result st = emit Ev_freeaddrinfo st"

text \<open>
  Modelled from the spec: \<^verbatim>\<open>Socket::SetFD\<close> and \<^verbatim>\<open>Socket::GetFD\<close> belong to the
  owning socket object (base/socket.cpp, not among the sources). The spec says that the
  object "receives the final descriptor via a setter-style handoff": the setter stores
  the descriptor in the object, the getter reads it back.
\<close>

definition SetFD :: "int \<Rightarrow> state \<Rightarrow> state" where
  "SetFD fd st = emit (Ev_SetFD fd) (st\<lparr>m_FD := fd\<rparr>)"

definition GetFD :: "state \<Rightarrow> int" where
  "GetFD st = m_FD st"

text \<open>
  \<^verbatim>\<open>Log(LogCritical, "TcpSocket") << ...\<close>: the logging collaborator receives one
  entry. The text of the entry comes from \<^verbatim>\<open>gai_strerror\<close> and
  \<^verbatim>\<open>Utility::FormatErrorNumber\<close> and is left out.
\<close>

definition Log_critical :: "string \<Rightarrow> state \<Rightarrow> state" where
  "Log_critical facility st = emit (Ev_Log_critical facility) st"

subsection \<open>Bind\<close>

datatype flow = Continue | Break

text \<open>
  The body of the loop of \<^verbatim>\<open>Bind\<close> for one entry (lines 76 to 114). \<open>win32\<close> says
  whether \<^verbatim>\<open>_WIN32\<close> is defined; both platforms read their last error into
  \<^verbatim>\<open>error\<close>, and only the other platforms set \<^verbatim>\<open>SO_REUSEADDR\<close>. The return
  values of \<^verbatim>\<open>setsockopt\<close> and \<^verbatim>\<open>closesocket\<close> are dropped, as in the source. The
  local \<^verbatim>\<open>fd\<close> is written at the start of every iteration and not read after the
  loop; it is the bound variable \<open>fd\<close>.
\<close>

definition Bind_body :: "bool \<Rightarrow> candidate \<Rightarrow> state \<Rightarrow> flow \<times> state" where
  "Bind_body win32 c st =
     (case c of (info, a) \<Rightarrow>
      case socket (ai_family info) (ai_socktype info) (ai_protocol info) (on_socket a) st of
        (fd, st1) \<Rightarrow>
          if fd = INVALID_SOCKET then
            (Continue, st1\<lparr>error := Some (errno st1), func := Some ''socket''\<rparr>)
          else
            let st2 = snd (setsockopt fd IPPROTO_IPV6 IPV6_V6ONLY 0 (on_v6only a) st1);
                st3 = (if win32 then st2
                       else snd (setsockopt fd SOL_SOCKET SO_REUSEADDR 1 (on_reuseaddr a) st2))
            in case bind_call fd (ai_addr info) (ai_addrlen info) (on_bind a) st3 of
                 (rc, st4) \<Rightarrow>
                   if rc < 0 then
                     (Continue,
                      snd (closesocket fd (on_close a)
                             (st4\<lparr>error := Some (errno st4), func := Some ''bind''\<rparr>)))
                   else (Break, SetFD fd st4))"

fun Bind_loop :: "bool \<Rightarrow> candidate list \<Rightarrow> state \<Rightarrow> state" where
  "Bind_loop win32 [] st = st"
| "Bind_loop win32 (c # rest) st =
     (case Bind_body win32 c st of
        (Continue, st') \<Rightarrow> Bind_loop win32 rest st'
      | (Break, st') \<Rightarrow> st')"

text \<open>
  The branch after the loop (lines 119 to 132, and 202 to 215 of \<^verbatim>\<open>Connect\<close>): it
  reads \<^verbatim>\<open>error\<close> for the log entry and \<^verbatim>\<open>func\<close> and \<^verbatim>\<open>error\<close> for the exception.
\<close>

definition terminal :: "bool \<Rightarrow> state \<Rightarrow> outcome \<times> state" where
  "terminal win32 st =
     (case (func st, error st) of
        (Some f, Some e) \<Rightarrow>
          (Throws (socket_error f (if win32 then errinfo_win32_error e else errinfo_errno e)),
           Log_critical ''TcpSocket'' st)
      | _ \<Rightarrow> (Undefined_read, st))"

text \<open>
  Modelled from the spec: \<^verbatim>\<open>String::IsEmpty\<close> and \<^verbatim>\<open>String::CStr\<close>
  (base/string.hpp, not among the sources). A host and a service are texts;
  \<^verbatim>\<open>IsEmpty\<close> holds of the empty text and \<^verbatim>\<open>CStr\<close> hands the text to the C
  interface as it is.
\<close>

definition Bind_node :: "string \<Rightarrow> string option" where
  "Bind_node node = (if node = [] then None else Some node)"

definition Bind_hints :: "int \<Rightarrow> addrinfo" where
  "Bind_hints family =
     \<lparr>ai_flags = AI_PASSIVE, ai_family = family, ai_socktype = SOCK_STREAM,
      ai_protocol = IPPROTO_TCP, ai_addrlen = 0, ai_addr = []\<rparr>"

definition Bind :: "bool \<Rightarrow> resolver \<Rightarrow> string \<Rightarrow> string \<Rightarrow> int \<Rightarrow> state \<Rightarrow> outcome \<times> state" where
  "Bind win32 gai node service family st =
     (case getaddrinfo gai (Bind_node node) service (Bind_hints family)
             (st\<lparr>error := None, func := None\<rparr>) of
        ((rc, result), st1) \<Rightarrow>
          if rc \<noteq> 0 then
            (Throws (socket_error ''getaddrinfo'' (errinfo_getaddrinfo_error rc)),
             Log_critical ''TcpSocket'' st1)
          else
            let st2 = Bind_loop win32 result st1;
                st3 = freeaddrinfo result st2
            in if GetFD st3 = INVALID_SOCKET then terminal win32 st3 else (Returns, st3))"

text \<open>The overload \<^verbatim>\<open>Bind(service, family)\<close> (line 36).\<close>

definition Bind_service :: "bool \<Rightarrow> resolver \<Rightarrow> string \<Rightarrow> int \<Rightarrow> state \<Rightarrow> outcome \<times> state" where
  "Bind_service win32 gai service family st = Bind win32 gai [] service family st"

subsection \<open>Connect\<close>

text \<open>
  The body of the loop of \<^verbatim>\<open>Connect\<close> (lines 167 to 197), the loop, and the function.
  The node is passed as \<^verbatim>\<open>node.CStr()\<close>, never as \<^verbatim>\<open>NULL\<close>, and the hints carry
  no flag.
\<close>

definition Connect_body :: "bool \<Rightarrow> candidate \<Rightarrow> state \<Rightarrow> flow \<times> state" where
  "Connect_body win32 c st =
     (case c of (info, a) \<Rightarrow>
      case socket (ai_family info) (ai_socktype info) (ai_protocol info) (on_socket a) st of
        (fd, st1) \<Rightarrow>
          if fd = INVALID_SOCKET then
            (Continue, st1\<lparr>error := Some (errno st1), func := Some ''socket''\<rparr>)
          else
            case connect_call fd (ai_addr info) (ai_addrlen info) (on_connect a) st1 of
              (rc, st2) \<Rightarrow>
                if rc < 0 then
                  (Continue,
                   snd (closesocket fd (on_close a)
                          (st2\<lparr>error := Some (errno st2), func := Some ''connect''\<rparr>)))
                else (Break, SetFD fd st2))"

fun Connect_loop :: "bool \<Rightarrow> candidate list \<Rightarrow> state \<Rightarrow> state" where
  "Connect_loop win32 [] st = st"
| "Connect_loop win32 (c # rest) st =
     (case Connect_body win32 c st of
        (Continue, st') \<Rightarrow> Connect_loop win32 rest st'
      | (Break, st') \<Rightarrow> st')"

definition Connect_hints :: addrinfo where
  "Connect_hints =
     \<lparr>ai_flags = 0, ai_family = AF_UNSPEC, ai_socktype = SOCK_STREAM,
      ai_protocol = IPPROTO_TCP, ai_addrlen = 0, ai_addr = []\<rparr>"

definition Connect :: "bool \<Rightarrow> resolver \<Rightarrow> string \<Rightarrow> string \<Rightarrow> state \<Rightarrow> outcome \<times> state" where
  "Connect win32 gai node service st =
     (case getaddrinfo gai (Some node) service Connect_hints
             (st\<lparr>error := None, func := None\<rparr>) of
        ((rc, result), st1) \<Rightarrow>
          if rc \<noteq> 0 then
            (Throws (socket_error ''getaddrinfo'' (errinfo_getaddrinfo_error rc)),
             Log_critical ''TcpSocket'' st1)
          else
            let st2 = Connect_loop win32 result st1;
                st3 = freeaddrinfo result st2
            in if GetFD st3 = INVALID_SOCKET then terminal win32 st3 else (Returns, st3))"

subsection \<open>Reading a run\<close>

text \<open>The calls that an operation makes: what it appends to the trace.\<close>

definition calls :: "(state \<Rightarrow> outcome \<times> state) \<Rightarrow> state \<Rightarrow> event list" where
  "calls f st = drop (length (trace st)) (trace (snd (f st)))"

definition is_socket :: "event \<Rightarrow> bool" where
  "is_socket ev = (case ev of Ev_socket _ _ _ _ \<Rightarrow> True | _ \<Rightarrow> False)"


definition is_getaddrinfo :: "event \<Rightarrow> bool" where
  "is_getaddrinfo ev = (case ev of Ev_getaddrinfo _ _ _ \<Rightarrow> True | _ \<Rightarrow> False)"

definition closed :: "event list \<Rightarrow> int list" where
  "closed tr = concat (map (\<lambda>ev. case ev of Ev_closesocket fd \<Rightarrow> [fd] | _ \<Rightarrow> []) tr)"

definition installed :: "event list \<Rightarrow> int list" where
  "installed tr = concat (map (\<lambda>ev. case ev of Ev_SetFD fd \<Rightarrow> [fd] | _ \<Rightarrow> []) tr)"

text \<open>
  The descriptors that are open after a sequence of calls: a successful \<^verbatim>\<open>socket\<close>
  opens the one it returns, \<^verbatim>\<open>closesocket\<close> closes the one it is given.
\<close>

definition track :: "int list \<Rightarrow> event \<Rightarrow> int list" where
  "track opened ev =
     (case ev of
        Ev_socket _ _ _ fd \<Rightarrow> if fd = INVALID_SOCKET then opened else fd # opened
      | Ev_closesocket fd \<Rightarrow> remove1 fd opened
      | _ \<Rightarrow> opened)"

definition open_fds :: "event list \<Rightarrow> int list" where
  "open_fds tr = foldl track [] tr"

text \<open>
  \<^verbatim>\<open>ResolutionError\<close> of the spec: the \<^verbatim>\<open>socket_error\<close> that names
  \<^verbatim>\<open>getaddrinfo\<close> and carries the status of the resolver.
\<close>

definition is_ResolutionError :: "outcome \<Rightarrow> bool" where
  "is_ResolutionError out =
     (case out of
        Throws (socket_error f (errinfo_getaddrinfo_error rc)) \<Rightarrow> f = ''getaddrinfo''
      | _ \<Rightarrow> False)"

text \<open>
  The contract of \<^verbatim>\<open>getaddrinfo\<close>: with the return code 0 the result list has at
  least one entry. An answer yields no entry when the return code is not 0 (the result
  pointer is then not set) or the list is empty.
\<close>

definition conforming :: "int \<times> candidate list \<Rightarrow> bool" where
  "conforming r = (fst r = 0 \<longrightarrow> snd r \<noteq> [])"

definition no_candidates :: "int \<times> candidate list \<Rightarrow> bool" where
  "no_candidates r = (fst r \<noteq> 0 \<or> snd r = [])"

text \<open>
  What the resolver answers to the request of \<^verbatim>\<open>Bind\<close> and to the request of
  \<^verbatim>\<open>Connect\<close>.
\<close>

definition Bind_resolved :: "resolver \<Rightarrow> string \<Rightarrow> string \<Rightarrow> int \<Rightarrow> int \<times> candidate list" where
  "Bind_resolved gai node service family = gai (Bind_node node) service (Bind_hints family)"

definition Connect_resolved :: "resolver \<Rightarrow> string \<Rightarrow> string \<Rightarrow> int \<times> candidate list" where
  "Connect_resolved gai node service = gai (Some node) service Connect_hints"

text \<open>
  The failing step of an entry, read off the answers of the system: the operation and
  the error number, or \<open>None\<close> when the entry succeeds.
\<close>

definition Bind_failure :: "candidate \<Rightarrow> (string \<times> int) option" where
  "Bind_failure c =
     (case on_socket (snd c) of
        Failure e \<Rightarrow> Some (''socket'', e)
      | Success d \<Rightarrow>
          (case on_bind (snd c) of Failure e \<Rightarrow> Some (''bind'', e) | Success _ \<Rightarrow> None))"

definition Connect_failure :: "candidate \<Rightarrow> (string \<times> int) option" where
  "Connect_failure c =
     (case on_socket (snd c) of
        Failure e \<Rightarrow> Some (''socket'', e)
      | Success d \<Rightarrow>
          (case on_connect (snd c) of Failure e \<Rightarrow> Some (''connect'', e) | Success _ \<Rightarrow> None))"

definition created :: "candidate \<Rightarrow> int option" where
  "created c = (case on_socket (snd c) of Success d \<Rightarrow> Some (int d) | Failure _ \<Rightarrow> None)"

text \<open>
  The calls that the loop body makes for one entry, and the calls of the whole loop, read
  off the answers of the system.
\<close>

definition Bind_events :: "bool \<Rightarrow> candidate \<Rightarrow> event list" where
  "Bind_events win32 c =
     (let info = fst c; a = snd c in
      case on_socket a of
        Failure e \<Rightarrow>
          [Ev_socket (ai_family info) (ai_socktype info) (ai_protocol info) INVALID_SOCKET]
      | Success d \<Rightarrow>
          [Ev_socket (ai_family info) (ai_socktype info) (ai_protocol info) (int d),
           Ev_setsockopt (int d) IPPROTO_IPV6 IPV6_V6ONLY 0]
          @ (if win32 then [] else [Ev_setsockopt (int d) SOL_SOCKET SO_REUSEADDR 1])
          @ [Ev_bind (int d) (ai_addr info) (ai_addrlen info)]
          @ (if Bind_failure c = None then [Ev_SetFD (int d)] else [Ev_closesocket (int d)]))"

definition Connect_events :: "candidate \<Rightarrow> event list" where
  "Connect_events c =
     (let info = fst c; a = snd c in
      case on_socket a of
        Failure e \<Rightarrow>
          [Ev_socket (ai_family info) (ai_socktype info) (ai_protocol info) INVALID_SOCKET]
      | Success d \<Rightarrow>
          [Ev_socket (ai_family info) (ai_socktype info) (ai_protocol info) (int d),
           Ev_connect (int d) (ai_addr info) (ai_addrlen info)]
          @ (if Connect_failure c = None then [Ev_SetFD (int d)] else [Ev_closesocket (int d)]))"

fun Bind_loop_events :: "bool \<Rightarrow> candidate list \<Rightarrow> event list" where
  "Bind_loop_events win32 [] = []"
| "Bind_loop_events win32 (c # rest) =
     Bind_events win32 c @ (if Bind_failure c = None then [] else Bind_loop_events win32 rest)"

fun Connect_loop_events :: "candidate list \<Rightarrow> event list" where
  "Connect_loop_events [] = []"
| "Connect_loop_events (c # rest) =
     Connect_events c @ (if Connect_failure c = None then [] else Connect_loop_events rest)"



text \<open>A socket object that holds no descriptor, before any call.\<close>

definition fresh :: state where
  "fresh = \<lparr>m_FD = INVALID_SOCKET, errno = 0, error = None, func = None, trace = []\<rparr>"

text \<open>Entries and answers for concrete runs.\<close>

definition info4 :: addrinfo where
  "info4 = \<lparr>ai_flags = 0, ai_family = 2, ai_socktype = SOCK_STREAM, ai_protocol = IPPROTO_TCP,
            ai_addrlen = 16, ai_addr = [2, 0, 0, 80, 127, 0, 0, 1, 0, 0, 0, 0, 0, 0, 0, 0]\<rparr>"

definition info6 :: addrinfo where
  "info6 = \<lparr>ai_flags = 0, ai_family = 10, ai_socktype = SOCK_STREAM, ai_protocol = IPPROTO_TCP,
            ai_addrlen = 28, ai_addr = [10, 0, 0, 80]\<rparr>"

definition all_ok :: "nat \<Rightarrow> answers" where
  "all_ok d =
     \<lparr>on_socket = Success d, on_v6only = Success (), on_reuseaddr = Success (),
      on_bind = Success (), on_connect = Success (), on_close = Success ()\<rparr>"

definition no_socket :: "int \<Rightarrow> answers" where
  "no_socket e = (all_ok 0)\<lparr>on_socket := Failure e\<rparr>"

definition refused :: "nat \<Rightarrow> int \<Rightarrow> answers" where
  "refused d e = (all_ok d)\<lparr>on_bind := Failure e, on_connect := Failure e\<rparr>"

definition answering :: "int \<Rightarrow> candidate list \<Rightarrow> resolver" where
  "answering rc cs = (\<lambda>node service hints. (rc, cs))"

definition both_fail :: "candidate list" where
  "both_fail = [(info6, no_socket 97), (info4, refused 3 98)]"

definition two_after_failure :: "candidate list" where
  "two_after_failure = [(info6, no_socket 97), (info4, all_ok 3), (info4, all_ok 4)]"

definition unsupported_then_ok :: "candidate list" where
  "unsupported_then_ok = [(info6, no_socket 97), (info4, all_ok 3)]"

definition refused_then_ok :: "candidate list" where
  "refused_then_ok = [(info6, refused 3 98), (info4, all_ok 4)]"


section \<open>Properties\<close>

subsection \<open>The loop bodies\<close>

lemmas sys_defs = emit_def socket_def setsockopt_def bind_call_def connect_call_def
  closesocket_def SetFD_def

lemmas body_defs = Bind_body_def Connect_body_def Bind_failure_def Connect_failure_def
  created_def Bind_events_def Connect_events_def sys_defs INVALID_SOCKET_def Let_def

lemma Bind_body_flow:
  "fst (Bind_body win32 c st) = (if Bind_failure c = None then Break else Continue)"
  by (cases c) (simp add: body_defs split: sysres.splits prod.splits)

lemma Bind_body_error:
  "error (snd (Bind_body win32 c st)) =
     (case Bind_failure c of None \<Rightarrow> error st | Some x \<Rightarrow> Some (snd x))"
  by (cases c) (simp add: body_defs split: sysres.splits prod.splits)

lemma Bind_body_func:
  "func (snd (Bind_body win32 c st)) =
     (case Bind_failure c of None \<Rightarrow> func st | Some x \<Rightarrow> Some (fst x))"
  by (cases c) (simp add: body_defs split: sysres.splits prod.splits)

lemma Bind_body_m_FD:
  "m_FD (snd (Bind_body win32 c st)) =
     (case Bind_failure c of None \<Rightarrow> the (created c) | Some x \<Rightarrow> m_FD st)"
  by (cases c) (simp add: body_defs split: sysres.splits prod.splits)

lemma Bind_body_trace:
  "trace (snd (Bind_body win32 c st)) = trace st @ Bind_events win32 c"
  by (cases c) (simp add: body_defs split: sysres.splits prod.splits)

lemma Connect_body_flow:
  "fst (Connect_body win32 c st) = (if Connect_failure c = None then Break else Continue)"
  by (cases c) (simp add: body_defs split: sysres.splits prod.splits)

lemma Connect_body_error:
  "error (snd (Connect_body win32 c st)) =
     (case Connect_failure c of None \<Rightarrow> error st | Some x \<Rightarrow> Some (snd x))"
  by (cases c) (simp add: body_defs split: sysres.splits prod.splits)

lemma Connect_body_func:
  "func (snd (Connect_body win32 c st)) =
     (case Connect_failure c of None \<Rightarrow> func st | Some x \<Rightarrow> Some (fst x))"
  by (cases c) (simp add: body_defs split: sysres.splits prod.splits)

lemma Connect_body_m_FD:
  "m_FD (snd (Connect_body win32 c st)) =
     (case Connect_failure c of None \<Rightarrow> the (created c) | Some x \<Rightarrow> m_FD st)"
  by (cases c) (simp add: body_defs split: sysres.splits prod.splits)

lemma Connect_body_trace:
  "trace (snd (Connect_body win32 c st)) = trace st @ Connect_events c"
  by (cases c) (simp add: body_defs split: sysres.splits prod.splits)

text \<open>One step of either loop, by the flow of its body.\<close>

lemma Bind_loop_Cons:
  "Bind_loop win32 (c # rest) st =
     (if Bind_failure c = None then snd (Bind_body win32 c st)
      else Bind_loop win32 rest (snd (Bind_body win32 c st)))"
  using Bind_body_flow [of win32 c st]
  by (cases "Bind_body win32 c st") (auto split: flow.splits)

lemma Connect_loop_Cons:
  "Connect_loop win32 (c # rest) st =
     (if Connect_failure c = None then snd (Connect_body win32 c st)
      else Connect_loop win32 rest (snd (Connect_body win32 c st)))"
  using Connect_body_flow [of win32 c st]
  by (cases "Connect_body win32 c st") (auto split: flow.splits)

lemma Bind_loop_trace:
  "trace (Bind_loop win32 cs st) = trace st @ Bind_loop_events win32 cs"
  by (induction cs arbitrary: st) (simp_all add: Bind_loop_Cons Bind_body_trace del: Bind_loop.simps(2))

lemma Connect_loop_trace:
  "trace (Connect_loop win32 cs st) = trace st @ Connect_loop_events cs"
  by (induction cs arbitrary: st)
     (simp_all add: Connect_loop_Cons Connect_body_trace del: Connect_loop.simps(2))

lemma Bind_loop_append:
  "\<forall>c\<in>set cs. Bind_failure c \<noteq> None \<Longrightarrow>
   Bind_loop win32 (cs @ rest) st = Bind_loop win32 rest (Bind_loop win32 cs st)"
  by (induction cs arbitrary: st) (auto simp add: Bind_loop_Cons simp del: Bind_loop.simps(2))

lemma Connect_loop_append:
  "\<forall>c\<in>set cs. Connect_failure c \<noteq> None \<Longrightarrow>
   Connect_loop win32 (cs @ rest) st = Connect_loop win32 rest (Connect_loop win32 cs st)"
  by (induction cs arbitrary: st)
     (auto simp add: Connect_loop_Cons simp del: Connect_loop.simps(2))

lemma Bind_loop_fail_m_FD:
  "\<forall>c\<in>set cs. Bind_failure c \<noteq> None \<Longrightarrow> m_FD (Bind_loop win32 cs st) = m_FD st"
  by (induction cs arbitrary: st)
     (auto simp add: Bind_loop_Cons Bind_body_m_FD simp del: Bind_loop.simps(2))

lemma Connect_loop_fail_m_FD:
  "\<forall>c\<in>set cs. Connect_failure c \<noteq> None \<Longrightarrow> m_FD (Connect_loop win32 cs st) = m_FD st"
  by (induction cs arbitrary: st)
     (auto simp add: Connect_loop_Cons Connect_body_m_FD simp del: Connect_loop.simps(2))

lemma Bind_loop_fail_recorded:
  assumes "\<forall>c\<in>set cs. Bind_failure c \<noteq> None" and "Bind_failure c = Some (f, e)"
  shows "func (Bind_loop win32 (cs @ [c]) st) = Some f \<and>
         error (Bind_loop win32 (cs @ [c]) st) = Some e"
  using assms by (auto simp add: Bind_loop_append Bind_loop_Cons Bind_body_func Bind_body_error
      simp del: Bind_loop.simps(2))

lemma Connect_loop_fail_recorded:
  assumes "\<forall>c\<in>set cs. Connect_failure c \<noteq> None" and "Connect_failure c = Some (f, e)"
  shows "func (Connect_loop win32 (cs @ [c]) st) = Some f \<and>
         error (Connect_loop win32 (cs @ [c]) st) = Some e"
  using assms by (auto simp add: Connect_loop_append Connect_loop_Cons Connect_body_func
      Connect_body_error simp del: Connect_loop.simps(2))

subsection \<open>The calls of the loops\<close>

lemma Bind_events_socket: "length (filter is_socket (Bind_events win32 c)) = 1"
  by (simp add: Bind_events_def Let_def is_socket_def split: sysres.splits)

lemma Connect_events_socket: "length (filter is_socket (Connect_events c)) = 1"
  by (simp add: Connect_events_def Let_def is_socket_def split: sysres.splits)

lemma Bind_events_closed:
  "closed (Bind_events win32 c) =
     (if Bind_failure c = None then [] else case created c of None \<Rightarrow> [] | Some fd \<Rightarrow> [fd])"
  by (simp add: Bind_events_def Bind_failure_def created_def Let_def closed_def
      split: sysres.splits)

lemma Connect_events_closed:
  "closed (Connect_events c) =
     (if Connect_failure c = None then [] else case created c of None \<Rightarrow> [] | Some fd \<Rightarrow> [fd])"
  by (simp add: Connect_events_def Connect_failure_def created_def Let_def closed_def
      split: sysres.splits)

lemma Bind_events_installed:
  "installed (Bind_events win32 c) = (if Bind_failure c = None then [the (created c)] else [])"
  by (simp add: Bind_events_def Bind_failure_def created_def Let_def installed_def
      split: sysres.splits)

lemma Connect_events_installed:
  "installed (Connect_events c) = (if Connect_failure c = None then [the (created c)] else [])"
  by (simp add: Connect_events_def Connect_failure_def created_def Let_def installed_def
      split: sysres.splits)

lemma Bind_events_track:
  "foldl track opened (Bind_events win32 c) = installed (Bind_events win32 c) @ opened"
  by (simp add: Bind_events_def Bind_failure_def Let_def installed_def track_def
      INVALID_SOCKET_def split: sysres.splits)

lemma Connect_events_track:
  "foldl track opened (Connect_events c) = installed (Connect_events c) @ opened"
  by (simp add: Connect_events_def Connect_failure_def Let_def installed_def track_def
      INVALID_SOCKET_def split: sysres.splits)

lemma installed_Nil: "installed [] = []"
  by (simp add: installed_def)

lemma closed_Nil: "closed [] = []"
  by (simp add: closed_def)

lemma installed_append: "installed (xs @ ys) = installed xs @ installed ys"
  by (simp add: installed_def)

lemma closed_append: "closed (xs @ ys) = closed xs @ closed ys"
  by (simp add: closed_def)

lemma Bind_loop_events_track:
  "foldl track opened (Bind_loop_events win32 cs) = installed (Bind_loop_events win32 cs) @ opened"
  by (induction cs arbitrary: opened)
     (simp_all add: Bind_events_track installed_append Bind_events_installed installed_Nil)

lemma Connect_loop_events_track:
  "foldl track opened (Connect_loop_events cs) = installed (Connect_loop_events cs) @ opened"
  by (induction cs arbitrary: opened)
     (simp_all add: Connect_events_track installed_append Connect_events_installed installed_Nil)

lemma Bind_loop_events_installed: "length (installed (Bind_loop_events win32 cs)) \<le> 1"
  by (induction cs) (simp_all add: installed_append Bind_events_installed installed_Nil)

lemma Connect_loop_events_installed: "length (installed (Connect_loop_events cs)) \<le> 1"
  by (induction cs)
     (simp_all add: installed_append Connect_events_installed installed_Nil)

lemma Bind_loop_events_fail:
  "\<forall>c\<in>set cs. Bind_failure c \<noteq> None \<Longrightarrow>
   Bind_loop_events win32 (cs @ rest) =
     concat (map (Bind_events win32) cs) @ Bind_loop_events win32 rest"
  by (induction cs) auto

lemma Connect_loop_events_fail:
  "\<forall>c\<in>set cs. Connect_failure c \<noteq> None \<Longrightarrow>
   Connect_loop_events (cs @ rest) = concat (map Connect_events cs) @ Connect_loop_events rest"
  by (induction cs) auto

lemma Bind_loop_events_free: "Ev_freeaddrinfo \<notin> set (Bind_loop_events win32 cs)"
  by (induction cs) (auto simp add: Bind_events_def Let_def split: sysres.splits if_splits)

lemma Connect_loop_events_free: "Ev_freeaddrinfo \<notin> set (Connect_loop_events cs)"
  by (induction cs) (auto simp add: Connect_events_def Let_def split: sysres.splits if_splits)


subsection \<open>The two operations, unfolded\<close>

lemma Bind_unfold:
  "Bind win32 gai node service family st =
     (let st1 = emit (Ev_getaddrinfo (Bind_node node) service (Bind_hints family))
                  (st\<lparr>error := None, func := None\<rparr>);
          st3 = emit Ev_freeaddrinfo
                  (Bind_loop win32 (snd (Bind_resolved gai node service family)) st1)
      in if fst (Bind_resolved gai node service family) \<noteq> 0 then
           (Throws (socket_error ''getaddrinfo''
              (errinfo_getaddrinfo_error (fst (Bind_resolved gai node service family)))),
            emit (Ev_Log_critical ''TcpSocket'') st1)
         else if m_FD st3 = INVALID_SOCKET then terminal win32 st3 else (Returns, st3))"
  by (simp add: Bind_def getaddrinfo_def Bind_resolved_def freeaddrinfo_def GetFD_def
      Log_critical_def Let_def split: prod.splits)

lemma Connect_unfold:
  "Connect win32 gai node service st =
     (let st1 = emit (Ev_getaddrinfo (Some node) service Connect_hints)
                  (st\<lparr>error := None, func := None\<rparr>);
          st3 = emit Ev_freeaddrinfo
                  (Connect_loop win32 (snd (Connect_resolved gai node service)) st1)
      in if fst (Connect_resolved gai node service) \<noteq> 0 then
           (Throws (socket_error ''getaddrinfo''
              (errinfo_getaddrinfo_error (fst (Connect_resolved gai node service)))),
            emit (Ev_Log_critical ''TcpSocket'') st1)
         else if m_FD st3 = INVALID_SOCKET then terminal win32 st3 else (Returns, st3))"
  by (simp add: Connect_def getaddrinfo_def Connect_resolved_def freeaddrinfo_def GetFD_def
      Log_critical_def Let_def split: prod.splits)

lemma terminal_trace:
  "trace (snd (terminal win32 st)) =
     trace st @ (case fst (terminal win32 st) of
                   Throws x \<Rightarrow> [Ev_Log_critical ''TcpSocket''] | _ \<Rightarrow> [])"
  by (simp add: terminal_def Log_critical_def emit_def split: option.splits)

lemma Bind_calls:
  "calls (Bind win32 gai node service family) st =
     Ev_getaddrinfo (Bind_node node) service (Bind_hints family) #
     (if fst (Bind_resolved gai node service family) \<noteq> 0 then [Ev_Log_critical ''TcpSocket'']
      else Bind_loop_events win32 (snd (Bind_resolved gai node service family)) @
           Ev_freeaddrinfo #
           (case fst (Bind win32 gai node service family st) of
              Throws x \<Rightarrow> [Ev_Log_critical ''TcpSocket''] | _ \<Rightarrow> []))"
  by (simp add: calls_def Bind_unfold Let_def terminal_trace Bind_loop_trace emit_def)

lemma Connect_calls:
  "calls (Connect win32 gai node service) st =
     Ev_getaddrinfo (Some node) service Connect_hints #
     (if fst (Connect_resolved gai node service) \<noteq> 0 then [Ev_Log_critical ''TcpSocket'']
      else Connect_loop_events (snd (Connect_resolved gai node service)) @
           Ev_freeaddrinfo #
           (case fst (Connect win32 gai node service st) of
              Throws x \<Rightarrow> [Ev_Log_critical ''TcpSocket''] | _ \<Rightarrow> []))"
  by (simp add: calls_def Connect_unfold Let_def terminal_trace Connect_loop_trace emit_def)

subsection \<open>Resolution that yields no entry\<close>

text \<open>
  C1: for every answer of the resolver that keeps the contract of \<^verbatim>\<open>getaddrinfo\<close>
  and yields no entry, \<^verbatim>\<open>Bind\<close> and \<^verbatim>\<open>Connect\<close> throw the \<^verbatim>\<open>socket_error\<close>
  that names \<^verbatim>\<open>getaddrinfo\<close> and carries the return code of the resolver, and no
  call of \<^verbatim>\<open>socket\<close> is made. That no \<^verbatim>\<open>socket\<close> call is made holds of every
  answer without an entry, also outside the contract.
\<close>

theorem no_candidates_raises_ResolutionError:
  "(conforming (Bind_resolved gai node service family)
      \<and> no_candidates (Bind_resolved gai node service family) \<longrightarrow>
    fst (Bind win32 gai node service family st) =
      Throws (socket_error ''getaddrinfo''
        (errinfo_getaddrinfo_error (fst (Bind_resolved gai node service family))))
    \<and> is_ResolutionError (fst (Bind win32 gai node service family st))
    \<and> filter is_socket (calls (Bind win32 gai node service family) st) = [])
   \<and> (no_candidates (Bind_resolved gai node service family) \<longrightarrow>
    filter is_socket (calls (Bind win32 gai node service family) st) = [])
   \<and> (conforming (Connect_resolved gai node service)
      \<and> no_candidates (Connect_resolved gai node service) \<longrightarrow>
    fst (Connect win32 gai node service st) =
      Throws (socket_error ''getaddrinfo''
        (errinfo_getaddrinfo_error (fst (Connect_resolved gai node service))))
    \<and> is_ResolutionError (fst (Connect win32 gai node service st))
    \<and> filter is_socket (calls (Connect win32 gai node service) st) = [])
   \<and> (no_candidates (Connect_resolved gai node service) \<longrightarrow>
    filter is_socket (calls (Connect win32 gai node service) st) = [])"
proof -
  have b0: "fst (Bind_resolved gai node service family) \<noteq> 0"
    if "conforming (Bind_resolved gai node service family)
        \<and> no_candidates (Bind_resolved gai node service family)"
    using that by (auto simp add: conforming_def no_candidates_def)
  have b1: "fst (Bind win32 gai node service family st) =
        Throws (socket_error ''getaddrinfo''
          (errinfo_getaddrinfo_error (fst (Bind_resolved gai node service family))))"
    if "fst (Bind_resolved gai node service family) \<noteq> 0"
    using that by (simp add: Bind_unfold Let_def)
  have b2: "filter is_socket (calls (Bind win32 gai node service family) st) = []"
    if "no_candidates (Bind_resolved gai node service family)"
    using that
    by (auto simp add: no_candidates_def Bind_calls is_socket_def split: outcome.splits)
  have c0: "fst (Connect_resolved gai node service) \<noteq> 0"
    if "conforming (Connect_resolved gai node service)
        \<and> no_candidates (Connect_resolved gai node service)"
    using that by (auto simp add: conforming_def no_candidates_def)
  have c1: "fst (Connect win32 gai node service st) =
        Throws (socket_error ''getaddrinfo''
          (errinfo_getaddrinfo_error (fst (Connect_resolved gai node service))))"
    if "fst (Connect_resolved gai node service) \<noteq> 0"
    using that by (simp add: Connect_unfold Let_def)
  have c2: "filter is_socket (calls (Connect win32 gai node service) st) = []"
    if "no_candidates (Connect_resolved gai node service)"
    using that
    by (auto simp add: no_candidates_def Connect_calls is_socket_def split: outcome.splits)
  have r: "is_ResolutionError (Throws (socket_error ''getaddrinfo''
             (errinfo_getaddrinfo_error rc)))" for rc
    by (simp add: is_ResolutionError_def)
  show ?thesis
    using b0 b1 b2 c0 c1 c2 by (simp add: r)
qed

text \<open>
  A run of C1: the resolver answers \<^verbatim>\<open>EAI_NONAME\<close> (- 2) for an unknown name, within
  the contract and without an entry.
\<close>

theorem no_candidates_witness:
  "conforming (Bind_resolved (answering (- 2) []) ''nonexistent.invalid'' ''80'' AF_UNSPEC)
   \<and> no_candidates (Bind_resolved (answering (- 2) []) ''nonexistent.invalid'' ''80'' AF_UNSPEC)
   \<and> fst (Bind False (answering (- 2) []) ''nonexistent.invalid'' ''80'' AF_UNSPEC fresh) =
        Throws (socket_error ''getaddrinfo'' (errinfo_getaddrinfo_error (- 2)))
   \<and> is_ResolutionError
        (fst (Bind False (answering (- 2) []) ''nonexistent.invalid'' ''80'' AF_UNSPEC fresh))
   \<and> filter is_socket
         (calls (Bind False (answering (- 2) []) ''nonexistent.invalid'' ''80'' AF_UNSPEC) fresh) = []
   \<and> conforming (Connect_resolved (answering (- 2) []) ''nonexistent.invalid'' ''80'')
   \<and> no_candidates (Connect_resolved (answering (- 2) []) ''nonexistent.invalid'' ''80'')
   \<and> fst (Connect False (answering (- 2) []) ''nonexistent.invalid'' ''80'' fresh) =
        Throws (socket_error ''getaddrinfo'' (errinfo_getaddrinfo_error (- 2)))
   \<and> is_ResolutionError
        (fst (Connect False (answering (- 2) []) ''nonexistent.invalid'' ''80'' fresh))
   \<and> filter is_socket
         (calls (Connect False (answering (- 2) []) ''nonexistent.invalid'' ''80'') fresh) = []"
proof -
  have p: "conforming (Bind_resolved (answering (- 2) []) ''nonexistent.invalid'' ''80'' AF_UNSPEC)
      \<and> no_candidates
          (Bind_resolved (answering (- 2) []) ''nonexistent.invalid'' ''80'' AF_UNSPEC)"
    "conforming (Connect_resolved (answering (- 2) []) ''nonexistent.invalid'' ''80'')
      \<and> no_candidates (Connect_resolved (answering (- 2) []) ''nonexistent.invalid'' ''80'')"
    by (simp_all add: conforming_def no_candidates_def Bind_resolved_def Connect_resolved_def
        answering_def)
  have v: "fst (Bind_resolved (answering (- 2) []) ''nonexistent.invalid'' ''80'' AF_UNSPEC) = - 2"
    "fst (Connect_resolved (answering (- 2) []) ''nonexistent.invalid'' ''80'') = - 2"
    by (simp_all add: Bind_resolved_def Connect_resolved_def answering_def)
  from no_candidates_raises_ResolutionError
    [of "answering (- 2) []" "''nonexistent.invalid''" "''80''" AF_UNSPEC False fresh] p
  show ?thesis by (simp add: v is_ResolutionError_def)
qed

subsection \<open>Every entry fails\<close>

lemma Bind_all_fail:
  assumes res: "Bind_resolved gai node service family = (0, cs)"
    and fail: "\<forall>c\<in>set cs. Bind_failure c \<noteq> None"
    and last: "Bind_failure (last cs) = Some (f, e)"
    and ne: "cs \<noteq> []" and fd: "m_FD st = INVALID_SOCKET"
  shows "fst (Bind win32 gai node service family st) =
           Throws (socket_error f (if win32 then errinfo_win32_error e else errinfo_errno e))"
proof -
  let ?st1 = "emit (Ev_getaddrinfo (Bind_node node) service (Bind_hints family))
                (st\<lparr>error := None, func := None\<rparr>)"
  from ne have split: "cs = butlast cs @ [last cs]" by simp
  have "\<forall>c\<in>set (butlast cs). Bind_failure c \<noteq> None"
    using fail by (meson in_set_butlastD)
  from Bind_loop_fail_recorded [OF this last, of win32 ?st1] split
  have rec: "func (Bind_loop win32 cs ?st1) = Some f" "error (Bind_loop win32 cs ?st1) = Some e"
    by simp_all
  have "m_FD (Bind_loop win32 cs ?st1) = INVALID_SOCKET"
    using Bind_loop_fail_m_FD [OF fail, of win32 ?st1] fd by (simp add: emit_def)
  with rec res show ?thesis
    by (simp add: Bind_unfold Let_def emit_def terminal_def)
qed

lemma Connect_all_fail:
  assumes res: "Connect_resolved gai node service = (0, cs)"
    and fail: "\<forall>c\<in>set cs. Connect_failure c \<noteq> None"
    and last: "Connect_failure (last cs) = Some (f, e)"
    and ne: "cs \<noteq> []" and fd: "m_FD st = INVALID_SOCKET"
  shows "fst (Connect win32 gai node service st) =
           Throws (socket_error f (if win32 then errinfo_win32_error e else errinfo_errno e))"
proof -
  let ?st1 = "emit (Ev_getaddrinfo (Some node) service Connect_hints)
                (st\<lparr>error := None, func := None\<rparr>)"
  from ne have split: "cs = butlast cs @ [last cs]" by simp
  have "\<forall>c\<in>set (butlast cs). Connect_failure c \<noteq> None"
    using fail by (meson in_set_butlastD)
  from Connect_loop_fail_recorded [OF this last, of win32 ?st1] split
  have rec: "func (Connect_loop win32 cs ?st1) = Some f"
    "error (Connect_loop win32 cs ?st1) = Some e"
    by simp_all
  have "m_FD (Connect_loop win32 cs ?st1) = INVALID_SOCKET"
    using Connect_loop_fail_m_FD [OF fail, of win32 ?st1] fd by (simp add: emit_def)
  with rec res show ?thesis
    by (simp add: Connect_unfold Let_def emit_def terminal_def)
qed

lemma Bind_failure_names: "Bind_failure c = Some (f, e) \<Longrightarrow> f = ''socket'' \<or> f = ''bind''"
  by (auto simp add: Bind_failure_def split: sysres.splits)

lemma Connect_failure_names:
  "Connect_failure c = Some (f, e) \<Longrightarrow> f = ''socket'' \<or> f = ''connect''"
  by (auto simp add: Connect_failure_def split: sysres.splits)

text \<open>
  C2, as amended: on a socket object that holds no descriptor when the call starts, for
  every non-empty list of entries that all fail, \<^verbatim>\<open>Bind\<close> and \<^verbatim>\<open>Connect\<close> throw the
  \<^verbatim>\<open>socket_error\<close> whose function name (one of socket, bind, connect) and error
  number are those of the failing step of the last entry. Each failing step overwrites
  whatever the two locals held before, so no earlier failure is surfaced.
\<close>

theorem last_failure_is_raised:
  assumes "cs \<noteq> []" and "m_FD st = INVALID_SOCKET"
  shows
    "(Bind_resolved gai node service family = (0, cs)
        \<and> (\<forall>c\<in>set cs. Bind_failure c \<noteq> None) \<and> Bind_failure (last cs) = Some (f, e) \<longrightarrow>
      fst (Bind win32 gai node service family st) =
        Throws (socket_error f (if win32 then errinfo_win32_error e else errinfo_errno e))
      \<and> (f = ''socket'' \<or> f = ''bind''))
     \<and> (Connect_resolved gai node service = (0, cs)
        \<and> (\<forall>c\<in>set cs. Connect_failure c \<noteq> None) \<and> Connect_failure (last cs) = Some (f', e') \<longrightarrow>
      fst (Connect win32 gai node service st) =
        Throws (socket_error f' (if win32 then errinfo_win32_error e' else errinfo_errno e'))
      \<and> (f' = ''socket'' \<or> f' = ''connect''))
     \<and> (Bind_failure c = Some (g, n) \<longrightarrow>
      func (snd (Bind_body win32 c st')) = Some g \<and> error (snd (Bind_body win32 c st')) = Some n)
     \<and> (Connect_failure c = Some (g', n') \<longrightarrow>
      func (snd (Connect_body win32 c st')) = Some g'
      \<and> error (snd (Connect_body win32 c st')) = Some n')"
  using assms Bind_all_fail [of gai node service family cs f e st win32]
    Connect_all_fail [of gai node service cs f' e' st win32]
    Bind_failure_names [of "last cs" f e] Connect_failure_names [of "last cs" f' e']
  by (simp add: Bind_body_func Bind_body_error Connect_body_func Connect_body_error)

text \<open>
  A run of C2: \<^verbatim>\<open>socket\<close> fails for the first entry (97), \<^verbatim>\<open>bind\<close> or
  \<^verbatim>\<open>connect\<close> for the second (98); the error of the second is thrown.
\<close>

theorem last_failure_witness:
  "both_fail \<noteq> []
   \<and> m_FD fresh = INVALID_SOCKET
   \<and> Bind_resolved (answering 0 both_fail) ''example.org'' ''80'' AF_UNSPEC = (0, both_fail)
   \<and> Connect_resolved (answering 0 both_fail) ''example.org'' ''80'' = (0, both_fail)
   \<and> list_all (\<lambda>c. Bind_failure c \<noteq> None) both_fail
   \<and> list_all (\<lambda>c. Connect_failure c \<noteq> None) both_fail
   \<and> Bind_failure (last both_fail) = Some (''bind'', 98)
   \<and> Connect_failure (last both_fail) = Some (''connect'', 98)
   \<and> fst (Bind False (answering 0 both_fail) ''example.org'' ''80'' AF_UNSPEC fresh) =
        Throws (socket_error ''bind'' (errinfo_errno 98))
   \<and> fst (Connect False (answering 0 both_fail) ''example.org'' ''80'' fresh) =
        Throws (socket_error ''connect'' (errinfo_errno 98))
   \<and> func (snd (Bind_body False (info4, refused 3 98) (fresh\<lparr>func := Some ''socket''\<rparr>))) =
        Some ''bind''
   \<and> func (snd (Connect_body False (info4, refused 3 98) (fresh\<lparr>func := Some ''socket''\<rparr>))) =
        Some ''connect''"
  using last_failure_is_raised
    [of both_fail fresh "answering 0 both_fail" "''example.org''" "''80''" AF_UNSPEC
        "''bind''" 98 False "''connect''" 98
        "(info4, refused 3 98)" "''bind''" 98 "fresh\<lparr>func := Some ''socket''\<rparr>" "''connect''" 98]
  by (simp add: Bind_resolved_def Connect_resolved_def answering_def fresh_def both_fail_def
      Bind_failure_def Connect_failure_def no_socket_def refused_def all_ok_def)

text \<open>
  C2 as stated fails on a socket object that already holds a descriptor: every entry
  fails, \<^verbatim>\<open>GetFD()\<close> still returns the descriptor held before the call, the branch
  after the loop is not taken, and the call returns without an error.
\<close>

theorem held_descriptor_hides_the_failure:
  "both_fail = [(info6, no_socket 97), (info4, refused 3 98)]
   \<and> Bind_resolved (answering 0 both_fail) ''example.org'' ''80'' AF_UNSPEC = (0, both_fail)
   \<and> Connect_resolved (answering 0 both_fail) ''example.org'' ''80'' = (0, both_fail)
   \<and> Bind_failure (info6, no_socket 97) = Some (''socket'', 97)
   \<and> Bind_failure (info4, refused 3 98) = Some (''bind'', 98)
   \<and> Connect_failure (info6, no_socket 97) = Some (''socket'', 97)
   \<and> Connect_failure (info4, refused 3 98) = Some (''connect'', 98)
   \<and> fst (Bind False (answering 0 both_fail) ''example.org'' ''80'' AF_UNSPEC
        (fresh\<lparr>m_FD := 5\<rparr>)) = Returns
   \<and> fst (Connect False (answering 0 both_fail) ''example.org'' ''80'' (fresh\<lparr>m_FD := 5\<rparr>)) =
        Returns"
  by (simp add: Bind_def Connect_def getaddrinfo_def freeaddrinfo_def GetFD_def
      Bind_body_def Connect_body_def emit_def socket_def setsockopt_def bind_call_def
      connect_call_def closesocket_def SetFD_def INVALID_SOCKET_def Let_def
      Bind_resolved_def Connect_resolved_def Bind_node_def Bind_hints_def
      answering_def fresh_def both_fail_def Bind_failure_def Connect_failure_def
      no_socket_def refused_def all_ok_def)

subsection \<open>The first entry that succeeds\<close>

lemma Bind_success_created: "Bind_failure c = None \<Longrightarrow> \<exists>d. created c = Some (int d)"
  by (auto simp add: Bind_failure_def created_def split: sysres.splits)

lemma Connect_success_created: "Connect_failure c = None \<Longrightarrow> \<exists>d. created c = Some (int d)"
  by (auto simp add: Connect_failure_def created_def split: sysres.splits)

lemma Bind_loop_first_success:
  assumes "\<forall>x\<in>set cs. Bind_failure x \<noteq> None" and "Bind_failure c = None"
  shows "Bind_loop win32 (cs @ c # rest) st = snd (Bind_body win32 c (Bind_loop win32 cs st))"
  using assms by (simp add: Bind_loop_append Bind_loop_Cons del: Bind_loop.simps(2))

lemma Connect_loop_first_success:
  assumes "\<forall>x\<in>set cs. Connect_failure x \<noteq> None" and "Connect_failure c = None"
  shows "Connect_loop win32 (cs @ c # rest) st =
           snd (Connect_body win32 c (Connect_loop win32 cs st))"
  using assms by (simp add: Connect_loop_append Connect_loop_Cons del: Connect_loop.simps(2))

lemma Bind_events_sockets:
  "length (filter is_socket (concat (map (Bind_events win32) cs))) = length cs"
  by (induction cs) (simp_all add: Bind_events_socket)

lemma Connect_events_sockets:
  "length (filter is_socket (concat (map Connect_events cs))) = length cs"
  by (induction cs) (simp_all add: Connect_events_socket)

lemma Bind_events_fail_closed:
  "\<forall>x\<in>set cs. Bind_failure x \<noteq> None \<Longrightarrow>
   closed (concat (map (Bind_events win32) cs)) = List.map_filter created cs"
  by (induction cs)
     (auto simp add: closed_Nil closed_append Bind_events_closed map_filter_simps
        split: option.splits)

lemma Connect_events_fail_closed:
  "\<forall>x\<in>set cs. Connect_failure x \<noteq> None \<Longrightarrow>
   closed (concat (map Connect_events cs)) = List.map_filter created cs"
  by (induction cs)
     (auto simp add: closed_Nil closed_append Connect_events_closed map_filter_simps
        split: option.splits)

lemma Bind_events_fail_installed:
  "\<forall>x\<in>set cs. Bind_failure x \<noteq> None \<Longrightarrow> installed (concat (map (Bind_events win32) cs)) = []"
  by (induction cs) (auto simp add: installed_Nil installed_append Bind_events_installed)

lemma Connect_events_fail_installed:
  "\<forall>x\<in>set cs. Connect_failure x \<noteq> None \<Longrightarrow> installed (concat (map Connect_events cs)) = []"
  by (induction cs) (auto simp add: installed_Nil installed_append Connect_events_installed)

lemma Bind_events_last:
  "Bind_failure c = None \<Longrightarrow> last (Bind_events win32 c) = Ev_SetFD (the (created c))"
  by (auto simp add: Bind_events_def Bind_failure_def created_def Let_def split: sysres.splits)

lemma Connect_events_last:
  "Connect_failure c = None \<Longrightarrow> last (Connect_events c) = Ev_SetFD (the (created c))"
  by (auto simp add: Connect_events_def Connect_failure_def created_def Let_def
      split: sysres.splits)

lemma Bind_events_ne: "Bind_events win32 c \<noteq> []"
  by (simp add: Bind_events_def Let_def split: sysres.splits)

lemma Connect_events_ne: "Connect_events c \<noteq> []"
  by (simp add: Connect_events_def Let_def split: sysres.splits)

text \<open>The whole call when the entry \<open>c\<close> is the first that succeeds.\<close>

lemma Bind_succeeds:
  assumes res: "Bind_resolved gai node service family = (0, cs @ c # rest)"
    and fail: "\<forall>x\<in>set cs. Bind_failure x \<noteq> None" and ok: "Bind_failure c = None"
  shows "fst (Bind win32 gai node service family st) = Returns"
    and "created c = Some (m_FD (snd (Bind win32 gai node service family st)))"
    and "Bind win32 gai node service family st =
           Bind win32 (answering 0 (cs @ [c])) node service family st"
    and "calls (Bind win32 gai node service family) st =
           Ev_getaddrinfo (Bind_node node) service (Bind_hints family) #
           concat (map (Bind_events win32) cs) @ Bind_events win32 c @ [Ev_freeaddrinfo]"
proof -
  let ?st1 = "emit (Ev_getaddrinfo (Bind_node node) service (Bind_hints family))
                (st\<lparr>error := None, func := None\<rparr>)"
  from ok obtain d where d: "created c = Some (int d)"
    using Bind_success_created by blast
  have loop: "Bind_loop win32 (cs @ c # rest) ?st1 =
                snd (Bind_body win32 c (Bind_loop win32 cs ?st1))"
    and loop': "Bind_loop win32 (cs @ [c]) ?st1 =
                snd (Bind_body win32 c (Bind_loop win32 cs ?st1))"
    using fail ok by (rule Bind_loop_first_success)+
  have fd: "m_FD (Bind_loop win32 (cs @ c # rest) ?st1) = int d"
    using ok d by (simp add: loop Bind_body_m_FD)
  show out: "fst (Bind win32 gai node service family st) = Returns"
    using res fd by (simp add: Bind_unfold Let_def emit_def INVALID_SOCKET_def)
  show "created c = Some (m_FD (snd (Bind win32 gai node service family st)))"
    using res fd d by (simp add: Bind_unfold Let_def emit_def INVALID_SOCKET_def)
  show "Bind win32 gai node service family st =
           Bind win32 (answering 0 (cs @ [c])) node service family st"
  proof -
    have "Bind_resolved (answering 0 (cs @ [c])) node service family = (0, cs @ [c])"
      by (simp add: Bind_resolved_def answering_def)
    with res show ?thesis by (simp add: Bind_unfold loop loop')
  qed
  show "calls (Bind win32 gai node service family) st =
           Ev_getaddrinfo (Bind_node node) service (Bind_hints family) #
           concat (map (Bind_events win32) cs) @ Bind_events win32 c @ [Ev_freeaddrinfo]"
    using res out fail ok by (simp add: Bind_calls Bind_loop_events_fail)
qed

lemma Connect_succeeds:
  assumes res: "Connect_resolved gai node service = (0, cs @ c # rest)"
    and fail: "\<forall>x\<in>set cs. Connect_failure x \<noteq> None" and ok: "Connect_failure c = None"
  shows "fst (Connect win32 gai node service st) = Returns"
    and "created c = Some (m_FD (snd (Connect win32 gai node service st)))"
    and "Connect win32 gai node service st =
           Connect win32 (answering 0 (cs @ [c])) node service st"
    and "calls (Connect win32 gai node service) st =
           Ev_getaddrinfo (Some node) service Connect_hints #
           concat (map Connect_events cs) @ Connect_events c @ [Ev_freeaddrinfo]"
proof -
  let ?st1 = "emit (Ev_getaddrinfo (Some node) service Connect_hints)
                (st\<lparr>error := None, func := None\<rparr>)"
  from ok obtain d where d: "created c = Some (int d)"
    using Connect_success_created by blast
  have loop: "Connect_loop win32 (cs @ c # rest) ?st1 =
                snd (Connect_body win32 c (Connect_loop win32 cs ?st1))"
    and loop': "Connect_loop win32 (cs @ [c]) ?st1 =
                snd (Connect_body win32 c (Connect_loop win32 cs ?st1))"
    using fail ok by (rule Connect_loop_first_success)+
  have fd: "m_FD (Connect_loop win32 (cs @ c # rest) ?st1) = int d"
    using ok d by (simp add: loop Connect_body_m_FD)
  show out: "fst (Connect win32 gai node service st) = Returns"
    using res fd by (simp add: Connect_unfold Let_def emit_def INVALID_SOCKET_def)
  show "created c = Some (m_FD (snd (Connect win32 gai node service st)))"
    using res fd d by (simp add: Connect_unfold Let_def emit_def INVALID_SOCKET_def)
  show "Connect win32 gai node service st =
           Connect win32 (answering 0 (cs @ [c])) node service st"
  proof -
    have "Connect_resolved (answering 0 (cs @ [c])) node service = (0, cs @ [c])"
      by (simp add: Connect_resolved_def answering_def)
    with res show ?thesis by (simp add: Connect_unfold loop loop')
  qed
  show "calls (Connect win32 gai node service) st =
           Ev_getaddrinfo (Some node) service Connect_hints #
           concat (map Connect_events cs) @ Connect_events c @ [Ev_freeaddrinfo]"
    using res out fail ok by (simp add: Connect_calls Connect_loop_events_fail)
qed

lemma installed_Cons:
  "installed (ev # tr) = (case ev of Ev_SetFD fd \<Rightarrow> [fd] | _ \<Rightarrow> []) @ installed tr"
  by (simp add: installed_def)

lemma closed_Cons:
  "closed (ev # tr) = (case ev of Ev_closesocket fd \<Rightarrow> [fd] | _ \<Rightarrow> []) @ closed tr"
  by (simp add: closed_def)

lemma take2_rev: "xs \<noteq> [] \<Longrightarrow> take 2 (rev (pre @ xs @ [z])) = [z, last xs]"
  by (cases xs rule: rev_cases) simp_all

text \<open>
  C3: when the entries before \<open>c\<close> fail and \<open>c\<close> succeeds, the call returns, the
  descriptor created for \<open>c\<close> is the one installed with \<^verbatim>\<open>SetFD\<close>, the last two
  calls are that \<^verbatim>\<open>SetFD\<close> and \<^verbatim>\<open>freeaddrinfo\<close>, exactly one \<^verbatim>\<open>socket\<close> call
  is made per entry up to \<open>c\<close>, and the whole run is the run on the list cut after
  \<open>c\<close>: no later entry is tried.
\<close>

theorem first_success_ends_the_loop:
  "(Bind_resolved gai node service family = (0, cs @ c # rest)
      \<and> (\<forall>x\<in>set cs. Bind_failure x \<noteq> None) \<and> Bind_failure c = None \<longrightarrow>
    fst (Bind win32 gai node service family st) = Returns
    \<and> created c = Some (m_FD (snd (Bind win32 gai node service family st)))
    \<and> installed (calls (Bind win32 gai node service family) st) =
        [m_FD (snd (Bind win32 gai node service family st))]
    \<and> length (filter is_socket (calls (Bind win32 gai node service family) st)) = Suc (length cs)
    \<and> take 2 (rev (calls (Bind win32 gai node service family) st)) =
        [Ev_freeaddrinfo, Ev_SetFD (m_FD (snd (Bind win32 gai node service family st)))]
    \<and> Bind win32 gai node service family st =
        Bind win32 (answering 0 (cs @ [c])) node service family st)
   \<and> (Connect_resolved gai node service = (0, cs @ c # rest)
      \<and> (\<forall>x\<in>set cs. Connect_failure x \<noteq> None) \<and> Connect_failure c = None \<longrightarrow>
    fst (Connect win32 gai node service st) = Returns
    \<and> created c = Some (m_FD (snd (Connect win32 gai node service st)))
    \<and> installed (calls (Connect win32 gai node service) st) =
        [m_FD (snd (Connect win32 gai node service st))]
    \<and> length (filter is_socket (calls (Connect win32 gai node service) st)) = Suc (length cs)
    \<and> take 2 (rev (calls (Connect win32 gai node service) st)) =
        [Ev_freeaddrinfo, Ev_SetFD (m_FD (snd (Connect win32 gai node service st)))]
    \<and> Connect win32 gai node service st =
        Connect win32 (answering 0 (cs @ [c])) node service st)"
proof (intro conjI impI)
  assume a: "Bind_resolved gai node service family = (0, cs @ c # rest)
      \<and> (\<forall>x\<in>set cs. Bind_failure x \<noteq> None) \<and> Bind_failure c = None"
  then have res: "Bind_resolved gai node service family = (0, cs @ c # rest)"
    and fail: "\<forall>x\<in>set cs. Bind_failure x \<noteq> None" and ok: "Bind_failure c = None"
    by simp_all
  note s = Bind_succeeds [OF res fail ok, of win32 st]
  show "fst (Bind win32 gai node service family st) = Returns" by (rule s(1))
  show fd: "created c = Some (m_FD (snd (Bind win32 gai node service family st)))" by (rule s(2))
  show "Bind win32 gai node service family st =
        Bind win32 (answering 0 (cs @ [c])) node service family st" by (rule s(3))
  show "installed (calls (Bind win32 gai node service family) st) =
        [m_FD (snd (Bind win32 gai node service family st))]"
    using ok
    by (simp add: s(4) fd installed_Cons installed_Nil installed_append
        Bind_events_fail_installed [OF fail] Bind_events_installed)
  show "length (filter is_socket (calls (Bind win32 gai node service family) st)) = Suc (length cs)"
    by (simp add: s(4) Bind_events_sockets Bind_events_socket is_socket_def)
  have "take 2 (rev (calls (Bind win32 gai node service family) st)) =
          [Ev_freeaddrinfo, last (Bind_events win32 c)]"
    unfolding s(4)
    using take2_rev [OF Bind_events_ne, of "Ev_getaddrinfo (Bind_node node) service
      (Bind_hints family) # concat (map (Bind_events win32) cs)" win32 c Ev_freeaddrinfo]
    by simp
  then show "take 2 (rev (calls (Bind win32 gai node service family) st)) =
        [Ev_freeaddrinfo, Ev_SetFD (m_FD (snd (Bind win32 gai node service family st)))]"
    using ok by (simp add: Bind_events_last fd)
next
  assume a: "Connect_resolved gai node service = (0, cs @ c # rest)
      \<and> (\<forall>x\<in>set cs. Connect_failure x \<noteq> None) \<and> Connect_failure c = None"
  then have res: "Connect_resolved gai node service = (0, cs @ c # rest)"
    and fail: "\<forall>x\<in>set cs. Connect_failure x \<noteq> None" and ok: "Connect_failure c = None"
    by simp_all
  note s = Connect_succeeds [OF res fail ok, of win32 st]
  show "fst (Connect win32 gai node service st) = Returns" by (rule s(1))
  show fd: "created c = Some (m_FD (snd (Connect win32 gai node service st)))" by (rule s(2))
  show "Connect win32 gai node service st =
        Connect win32 (answering 0 (cs @ [c])) node service st" by (rule s(3))
  show "installed (calls (Connect win32 gai node service) st) =
        [m_FD (snd (Connect win32 gai node service st))]"
    using ok
    by (simp add: s(4) fd installed_Cons installed_Nil installed_append
        Connect_events_fail_installed [OF fail] Connect_events_installed)
  show "length (filter is_socket (calls (Connect win32 gai node service) st)) = Suc (length cs)"
    by (simp add: s(4) Connect_events_sockets Connect_events_socket is_socket_def)
  have "take 2 (rev (calls (Connect win32 gai node service) st)) =
          [Ev_freeaddrinfo, last (Connect_events c)]"
    unfolding s(4)
    using take2_rev [OF Connect_events_ne, of "Ev_getaddrinfo (Some node) service
      Connect_hints # concat (map Connect_events cs)" c Ev_freeaddrinfo]
    by simp
  then show "take 2 (rev (calls (Connect win32 gai node service) st)) =
        [Ev_freeaddrinfo, Ev_SetFD (m_FD (snd (Connect win32 gai node service st)))]"
    using ok by (simp add: Connect_events_last fd)
qed

text \<open>A run of C3: the second of three entries succeeds; the third is never tried.\<close>

theorem first_success_witness:
  "Bind_resolved (answering 0 two_after_failure) ''example.org'' ''80'' AF_UNSPEC =
      (0, two_after_failure)
   \<and> two_after_failure = [(info6, no_socket 97)] @ (info4, all_ok 3) # [(info4, all_ok 4)]
   \<and> list_all (\<lambda>x. Bind_failure x \<noteq> None) [(info6, no_socket 97)]
   \<and> Bind_failure (info4, all_ok 3) = None
   \<and> fst (Bind False (answering 0 two_after_failure) ''example.org'' ''80'' AF_UNSPEC fresh) =
        Returns
   \<and> m_FD (snd (Bind False (answering 0 two_after_failure) ''example.org'' ''80'' AF_UNSPEC
        fresh)) = 3
   \<and> length (filter is_socket (calls (Bind False (answering 0 two_after_failure)
        ''example.org'' ''80'' AF_UNSPEC) fresh)) = 2
   \<and> Connect_resolved (answering 0 two_after_failure) ''example.org'' ''80'' =
      (0, two_after_failure)
   \<and> list_all (\<lambda>x. Connect_failure x \<noteq> None) [(info6, no_socket 97)]
   \<and> Connect_failure (info4, all_ok 3) = None
   \<and> fst (Connect False (answering 0 two_after_failure) ''example.org'' ''80'' fresh) = Returns
   \<and> m_FD (snd (Connect False (answering 0 two_after_failure) ''example.org'' ''80'' fresh)) = 3
   \<and> length (filter is_socket (calls (Connect False (answering 0 two_after_failure)
        ''example.org'' ''80'') fresh)) = 2"
proof -
  let ?gai = "answering 0 two_after_failure"
  have l: "two_after_failure = [(info6, no_socket 97)] @ (info4, all_ok 3) # [(info4, all_ok 4)]"
    by (simp add: two_after_failure_def)
  have b: "Bind_resolved ?gai ''example.org'' ''80'' AF_UNSPEC =
             (0, [(info6, no_socket 97)] @ (info4, all_ok 3) # [(info4, all_ok 4)])
           \<and> (\<forall>x\<in>set [(info6, no_socket 97)]. Bind_failure x \<noteq> None)
           \<and> Bind_failure (info4, all_ok 3) = None"
    by (simp add: Bind_resolved_def answering_def two_after_failure_def Bind_failure_def
        no_socket_def all_ok_def)
  have c: "Connect_resolved ?gai ''example.org'' ''80'' =
             (0, [(info6, no_socket 97)] @ (info4, all_ok 3) # [(info4, all_ok 4)])
           \<and> (\<forall>x\<in>set [(info6, no_socket 97)]. Connect_failure x \<noteq> None)
           \<and> Connect_failure (info4, all_ok 3) = None"
    by (simp add: Connect_resolved_def answering_def two_after_failure_def Connect_failure_def
        no_socket_def all_ok_def)
  note t = first_success_ends_the_loop
    [of ?gai "''example.org''" "''80''" AF_UNSPEC "[(info6, no_socket 97)]" "(info4, all_ok 3)"
        "[(info4, all_ok 4)]" False fresh]
  from t b have b1: "fst (Bind False ?gai ''example.org'' ''80'' AF_UNSPEC fresh) = Returns"
    and b2: "created (info4, all_ok 3) =
               Some (m_FD (snd (Bind False ?gai ''example.org'' ''80'' AF_UNSPEC fresh)))"
    and b3: "length (filter is_socket (calls (Bind False ?gai ''example.org'' ''80'' AF_UNSPEC)
               fresh)) = Suc (length [(info6, no_socket 97)])"
    by blast+
  from t c have c1: "fst (Connect False ?gai ''example.org'' ''80'' fresh) = Returns"
    and c2: "created (info4, all_ok 3) =
               Some (m_FD (snd (Connect False ?gai ''example.org'' ''80'' fresh)))"
    and c3: "length (filter is_socket (calls (Connect False ?gai ''example.org'' ''80'')
               fresh)) = Suc (length [(info6, no_socket 97)])"
    by blast+
  have fd: "created (info4, all_ok 3) = Some 3"
    by (simp add: created_def all_ok_def)
  from b2 c2 have "m_FD (snd (Bind False ?gai ''example.org'' ''80'' AF_UNSPEC fresh)) = 3"
    and "m_FD (snd (Connect False ?gai ''example.org'' ''80'' fresh)) = 3"
    by (simp_all add: fd)
  with b c l b1 b3 c1 c3 show ?thesis by simp
qed

subsection \<open>Descriptors that are not handed over\<close>

lemma open_fds_append: "open_fds (xs @ ys) = foldl track (open_fds xs) ys"
  by (simp add: open_fds_def)

lemma Bind_open_fds:
  "open_fds (calls (Bind win32 gai node service family) st) =
     installed (calls (Bind win32 gai node service family) st)"
  by (simp add: Bind_calls open_fds_def track_def installed_Cons installed_Nil installed_append
      Bind_loop_events_track split: outcome.splits)

lemma Connect_open_fds:
  "open_fds (calls (Connect win32 gai node service) st) =
     installed (calls (Connect win32 gai node service) st)"
  by (simp add: Connect_calls open_fds_def track_def installed_Cons installed_Nil
      installed_append Connect_loop_events_track split: outcome.splits)

lemma Bind_installed:
  "length (installed (calls (Bind win32 gai node service family) st)) \<le> 1"
  using Bind_loop_events_installed [of win32 "snd (Bind_resolved gai node service family)"]
  by (simp add: Bind_calls installed_Cons installed_Nil installed_append split: outcome.splits)

lemma Connect_installed:
  "length (installed (calls (Connect win32 gai node service) st)) \<le> 1"
  using Connect_loop_events_installed [of "snd (Connect_resolved gai node service)"]
  by (simp add: Connect_calls installed_Cons installed_Nil installed_append
      split: outcome.splits)

lemma Bind_loop_events_fail_installed:
  "\<forall>c\<in>set cs. Bind_failure c \<noteq> None \<Longrightarrow> installed (Bind_loop_events win32 cs) = []"
  by (induction cs) (auto simp add: installed_Nil installed_append Bind_events_installed)

lemma Connect_loop_events_fail_installed:
  "\<forall>c\<in>set cs. Connect_failure c \<noteq> None \<Longrightarrow> installed (Connect_loop_events cs) = []"
  by (induction cs) (auto simp add: installed_Nil installed_append Connect_events_installed)

lemma Bind_loop_fail_open:
  assumes "\<forall>c\<in>set cs. Bind_failure c \<noteq> None"
  shows "open_fds (trace (Bind_loop win32 cs st)) = open_fds (trace st)"
  by (simp add: Bind_loop_trace open_fds_append Bind_loop_events_track
      Bind_loop_events_fail_installed [OF assms])

lemma Connect_loop_fail_open:
  assumes "\<forall>c\<in>set cs. Connect_failure c \<noteq> None"
  shows "open_fds (trace (Connect_loop win32 cs st)) = open_fds (trace st)"
  by (simp add: Connect_loop_trace open_fds_append Connect_loop_events_track
      Connect_loop_events_fail_installed [OF assms])

lemma Bind_body_closes:
  "Bind_failure c \<noteq> None \<Longrightarrow> created c = Some fd \<Longrightarrow>
   last (trace (snd (Bind_body win32 c st))) = Ev_closesocket fd"
  by (auto simp add: Bind_body_trace Bind_events_def Bind_failure_def created_def Let_def
      split: sysres.splits)

lemma Connect_body_closes:
  "Connect_failure c \<noteq> None \<Longrightarrow> created c = Some fd \<Longrightarrow>
   last (trace (snd (Connect_body win32 c st))) = Ev_closesocket fd"
  by (auto simp add: Connect_body_trace Connect_events_def Connect_failure_def created_def
      Let_def split: sysres.splits)

text \<open>
  C4: an iteration that fails after its descriptor was created ends with
  \<^verbatim>\<open>closesocket\<close> on that descriptor and continues; after any number of failed
  entries the loop goes on with exactly the descriptors open that were open before; and
  at the end of \<^verbatim>\<open>Bind\<close> and of \<^verbatim>\<open>Connect\<close> the descriptors opened by the call and
  not closed are those handed over with \<^verbatim>\<open>SetFD\<close>, at most one.
\<close>

theorem failed_descriptors_are_closed:
  "(Bind_failure c \<noteq> None \<and> created c = Some fd \<longrightarrow>
      fst (Bind_body win32 c st) = Continue
      \<and> last (trace (snd (Bind_body win32 c st))) = Ev_closesocket fd)
   \<and> ((\<forall>x\<in>set cs. Bind_failure x \<noteq> None) \<longrightarrow>
      Bind_loop win32 (cs @ rest) st = Bind_loop win32 rest (Bind_loop win32 cs st)
      \<and> open_fds (trace (Bind_loop win32 cs st)) = open_fds (trace st))
   \<and> open_fds (calls (Bind win32 gai node service family) st) =
        installed (calls (Bind win32 gai node service family) st)
   \<and> length (installed (calls (Bind win32 gai node service family) st)) \<le> 1
   \<and> (Connect_failure c \<noteq> None \<and> created c = Some fd \<longrightarrow>
      fst (Connect_body win32 c st) = Continue
      \<and> last (trace (snd (Connect_body win32 c st))) = Ev_closesocket fd)
   \<and> ((\<forall>x\<in>set cs. Connect_failure x \<noteq> None) \<longrightarrow>
      Connect_loop win32 (cs @ rest) st = Connect_loop win32 rest (Connect_loop win32 cs st)
      \<and> open_fds (trace (Connect_loop win32 cs st)) = open_fds (trace st))
   \<and> open_fds (calls (Connect win32 gai node service) st) =
        installed (calls (Connect win32 gai node service) st)
   \<and> length (installed (calls (Connect win32 gai node service) st)) \<le> 1"
  using Bind_body_closes [of c fd win32 st] Connect_body_closes [of c fd win32 st]
    Bind_loop_append [of cs win32 rest st] Connect_loop_append [of cs win32 rest st]
    Bind_loop_fail_open [of cs win32 st] Connect_loop_fail_open [of cs win32 st]
    Bind_open_fds [of win32 gai node service family st]
    Connect_open_fds [of win32 gai node service st]
    Bind_installed [of win32 gai node service family st]
    Connect_installed [of win32 gai node service st]
  by (simp add: Bind_body_flow Connect_body_flow)

lemmas run_defs = Bind_def Connect_def getaddrinfo_def freeaddrinfo_def GetFD_def
  Bind_body_def Connect_body_def sys_defs terminal_def Log_critical_def INVALID_SOCKET_def
  Let_def answering_def fresh_def no_socket_def refused_def all_ok_def calls_def
  both_fail_def two_after_failure_def unsupported_then_ok_def refused_then_ok_def

text \<open>
  A run of C4: descriptor 3 is closed when its \<^verbatim>\<open>bind\<close> or \<^verbatim>\<open>connect\<close> is
  refused; descriptor 4 is the only one left open.
\<close>

theorem failed_descriptors_witness:
  "Bind_failure (info4, refused 3 98) \<noteq> None
   \<and> Connect_failure (info4, refused 3 98) \<noteq> None
   \<and> created (info4, refused 3 98) = Some 3
   \<and> last (trace (snd (Bind_body False (info4, refused 3 98) fresh))) = Ev_closesocket 3
   \<and> last (trace (snd (Connect_body False (info4, refused 3 98) fresh))) = Ev_closesocket 3
   \<and> list_all (\<lambda>x. Bind_failure x \<noteq> None) both_fail
   \<and> list_all (\<lambda>x. Connect_failure x \<noteq> None) both_fail
   \<and> open_fds (trace (Bind_loop False both_fail fresh)) = []
   \<and> open_fds (trace (Connect_loop False both_fail fresh)) = []
   \<and> open_fds (calls (Bind False (answering 0 refused_then_ok) ''example.org'' ''80'' AF_UNSPEC)
        fresh) = [4]
   \<and> open_fds (calls (Connect False (answering 0 refused_then_ok) ''example.org'' ''80'')
        fresh) = [4]"
proof -
  have p: "Bind_failure (info4, refused 3 98) \<noteq> None \<and> created (info4, refused 3 98) = Some 3"
    "Connect_failure (info4, refused 3 98) \<noteq> None \<and> created (info4, refused 3 98) = Some 3"
    "\<forall>x\<in>set both_fail. Bind_failure x \<noteq> None"
    "\<forall>x\<in>set both_fail. Connect_failure x \<noteq> None"
    by (simp_all add: Bind_failure_def Connect_failure_def created_def refused_def all_ok_def
        no_socket_def both_fail_def)
  note t = failed_descriptors_are_closed
    [of "(info4, refused 3 98)" 3 False fresh both_fail "[]"
        "answering 0 refused_then_ok" "''example.org''" "''80''" AF_UNSPEC]
  from t p have
    "last (trace (snd (Bind_body False (info4, refused 3 98) fresh))) = Ev_closesocket 3"
    "last (trace (snd (Connect_body False (info4, refused 3 98) fresh))) = Ev_closesocket 3"
    "open_fds (trace (Bind_loop False both_fail fresh)) = open_fds (trace fresh)"
    "open_fds (trace (Connect_loop False both_fail fresh)) = open_fds (trace fresh)"
    by blast+
  moreover have "open_fds (trace fresh) = []"
    by (simp add: fresh_def open_fds_def)
  moreover from t have
    "open_fds (calls (Bind False (answering 0 refused_then_ok) ''example.org'' ''80'' AF_UNSPEC)
        fresh) =
     installed (calls (Bind False (answering 0 refused_then_ok) ''example.org'' ''80'' AF_UNSPEC)
        fresh)"
    "open_fds (calls (Connect False (answering 0 refused_then_ok) ''example.org'' ''80'') fresh) =
     installed (calls (Connect False (answering 0 refused_then_ok) ''example.org'' ''80'') fresh)"
    by blast+
  moreover have
    "installed (calls (Bind False (answering 0 refused_then_ok) ''example.org'' ''80'' AF_UNSPEC)
        fresh) = [4]"
    "installed (calls (Connect False (answering 0 refused_then_ok) ''example.org'' ''80'') fresh)
       = [4]"
    by (simp_all add: run_defs installed_def)
  ultimately show ?thesis using p by (simp add: list_all_iff)
qed

subsection \<open>How many descriptors are closed\<close>

lemma length_map_filter: "length (List.map_filter f xs) = length (filter (\<lambda>x. f x \<noteq> None) xs)"
  by (simp add: List.map_filter_def)

text \<open>
  C5, as amended: when the entries before the last fail and the last succeeds, the call
  returns, and the descriptors closed during the call are exactly those created for the
  failed entries, in order. Their number is the number of failed entries whose
  \<^verbatim>\<open>socket\<close> call succeeded; it is N - 1 when every failed entry failed at
  \<^verbatim>\<open>bind\<close> (at \<^verbatim>\<open>connect\<close>). The only descriptor left open is the installed one.
\<close>

theorem closed_descriptors_before_success:
  "(Bind_resolved gai node service family = (0, cs @ [c])
      \<and> (\<forall>x\<in>set cs. Bind_failure x \<noteq> None) \<and> Bind_failure c = None \<longrightarrow>
    fst (Bind win32 gai node service family st) = Returns
    \<and> closed (calls (Bind win32 gai node service family) st) = List.map_filter created cs
    \<and> length (closed (calls (Bind win32 gai node service family) st)) =
        length (filter (\<lambda>x. created x \<noteq> None) cs)
    \<and> open_fds (calls (Bind win32 gai node service family) st) =
        [m_FD (snd (Bind win32 gai node service family st))])
   \<and> (Bind_resolved gai node service family = (0, cs @ [c])
      \<and> (\<forall>x\<in>set cs. Bind_failure x \<noteq> None \<and> created x \<noteq> None) \<and> Bind_failure c = None \<longrightarrow>
    length (closed (calls (Bind win32 gai node service family) st)) = length cs)
   \<and> (Connect_resolved gai node service = (0, cs @ [c])
      \<and> (\<forall>x\<in>set cs. Connect_failure x \<noteq> None) \<and> Connect_failure c = None \<longrightarrow>
    fst (Connect win32 gai node service st) = Returns
    \<and> closed (calls (Connect win32 gai node service) st) = List.map_filter created cs
    \<and> length (closed (calls (Connect win32 gai node service) st)) =
        length (filter (\<lambda>x. created x \<noteq> None) cs)
    \<and> open_fds (calls (Connect win32 gai node service) st) =
        [m_FD (snd (Connect win32 gai node service st))])
   \<and> (Connect_resolved gai node service = (0, cs @ [c])
      \<and> (\<forall>x\<in>set cs. Connect_failure x \<noteq> None \<and> created x \<noteq> None)
      \<and> Connect_failure c = None \<longrightarrow>
    length (closed (calls (Connect win32 gai node service) st)) = length cs)"
proof -
  have bind: "fst (Bind win32 gai node service family st) = Returns
    \<and> closed (calls (Bind win32 gai node service family) st) = List.map_filter created cs
    \<and> open_fds (calls (Bind win32 gai node service family) st) =
        [m_FD (snd (Bind win32 gai node service family st))]"
    if res: "Bind_resolved gai node service family = (0, cs @ [c])"
      and fail: "\<forall>x\<in>set cs. Bind_failure x \<noteq> None" and ok: "Bind_failure c = None"
  proof -
    note s = Bind_succeeds [OF res fail ok, of win32 st]
    have "closed (calls (Bind win32 gai node service family) st) = List.map_filter created cs"
      using ok by (simp add: s(4) closed_Cons closed_Nil closed_append
          Bind_events_fail_closed [OF fail] Bind_events_closed)
    moreover have "installed (calls (Bind win32 gai node service family) st) =
        [m_FD (snd (Bind win32 gai node service family st))]"
      using ok by (simp add: s(4) s(2) installed_Cons installed_Nil installed_append
          Bind_events_fail_installed [OF fail] Bind_events_installed)
    ultimately show ?thesis using s(1) by (simp add: Bind_open_fds)
  qed
  have conn: "fst (Connect win32 gai node service st) = Returns
    \<and> closed (calls (Connect win32 gai node service) st) = List.map_filter created cs
    \<and> open_fds (calls (Connect win32 gai node service) st) =
        [m_FD (snd (Connect win32 gai node service st))]"
    if res: "Connect_resolved gai node service = (0, cs @ [c])"
      and fail: "\<forall>x\<in>set cs. Connect_failure x \<noteq> None" and ok: "Connect_failure c = None"
  proof -
    note s = Connect_succeeds [OF res fail ok, of win32 st]
    have "closed (calls (Connect win32 gai node service) st) = List.map_filter created cs"
      using ok by (simp add: s(4) closed_Cons closed_Nil closed_append
          Connect_events_fail_closed [OF fail] Connect_events_closed)
    moreover have "installed (calls (Connect win32 gai node service) st) =
        [m_FD (snd (Connect win32 gai node service st))]"
      using ok by (simp add: s(4) s(2) installed_Cons installed_Nil installed_append
          Connect_events_fail_installed [OF fail] Connect_events_installed)
    ultimately show ?thesis using s(1) by (simp add: Connect_open_fds)
  qed
  have all: "length (filter (\<lambda>x. created x \<noteq> None) cs) = length cs"
    if "\<forall>x\<in>set cs. P x \<and> created x \<noteq> None" for P
    using that by (simp add: filter_id_conv)
  show ?thesis
    using bind conn all [of "\<lambda>x. Bind_failure x \<noteq> None"]
      all [of "\<lambda>x. Connect_failure x \<noteq> None"]
    by (simp add: length_map_filter)
qed

text \<open>A run of C5: one entry is refused after its socket was created; one close.\<close>

theorem closed_descriptors_witness:
  "Bind_resolved (answering 0 refused_then_ok) ''example.org'' ''80'' AF_UNSPEC =
      (0, [(info6, refused 3 98)] @ [(info4, all_ok 4)])
   \<and> list_all (\<lambda>x. Bind_failure x \<noteq> None \<and> created x \<noteq> None) [(info6, refused 3 98)]
   \<and> Bind_failure (info4, all_ok 4) = None
   \<and> fst (Bind False (answering 0 refused_then_ok) ''example.org'' ''80'' AF_UNSPEC fresh) =
        Returns
   \<and> closed (calls (Bind False (answering 0 refused_then_ok) ''example.org'' ''80'' AF_UNSPEC)
        fresh) = [3]
   \<and> length (closed (calls (Bind False (answering 0 refused_then_ok) ''example.org'' ''80''
        AF_UNSPEC) fresh)) = 1
   \<and> Connect_resolved (answering 0 refused_then_ok) ''example.org'' ''80'' =
      (0, [(info6, refused 3 98)] @ [(info4, all_ok 4)])
   \<and> list_all (\<lambda>x. Connect_failure x \<noteq> None \<and> created x \<noteq> None) [(info6, refused 3 98)]
   \<and> Connect_failure (info4, all_ok 4) = None
   \<and> fst (Connect False (answering 0 refused_then_ok) ''example.org'' ''80'' fresh) = Returns
   \<and> closed (calls (Connect False (answering 0 refused_then_ok) ''example.org'' ''80'') fresh) =
        [3]
   \<and> length (closed (calls (Connect False (answering 0 refused_then_ok) ''example.org'' ''80'')
        fresh)) = 1"
proof -
  let ?gai = "answering 0 refused_then_ok"
  have b: "Bind_resolved ?gai ''example.org'' ''80'' AF_UNSPEC =
             (0, [(info6, refused 3 98)] @ [(info4, all_ok 4)])
           \<and> (\<forall>x\<in>set [(info6, refused 3 98)]. Bind_failure x \<noteq> None \<and> created x \<noteq> None)
           \<and> Bind_failure (info4, all_ok 4) = None"
    by (simp add: Bind_resolved_def answering_def refused_then_ok_def Bind_failure_def
        created_def refused_def all_ok_def)
  have c: "Connect_resolved ?gai ''example.org'' ''80'' =
             (0, [(info6, refused 3 98)] @ [(info4, all_ok 4)])
           \<and> (\<forall>x\<in>set [(info6, refused 3 98)]. Connect_failure x \<noteq> None \<and> created x \<noteq> None)
           \<and> Connect_failure (info4, all_ok 4) = None"
    by (simp add: Connect_resolved_def answering_def refused_then_ok_def Connect_failure_def
        created_def refused_def all_ok_def)
  note t = closed_descriptors_before_success
    [of ?gai "''example.org''" "''80''" AF_UNSPEC "[(info6, refused 3 98)]" "(info4, all_ok 4)"
        False fresh]
  from t b have b1: "fst (Bind False ?gai ''example.org'' ''80'' AF_UNSPEC fresh) = Returns"
    and b2: "closed (calls (Bind False ?gai ''example.org'' ''80'' AF_UNSPEC) fresh) =
               List.map_filter created [(info6, refused 3 98)]"
    and b3: "length (closed (calls (Bind False ?gai ''example.org'' ''80'' AF_UNSPEC) fresh)) =
               length [(info6, refused 3 98)]"
    by auto
  from t c have c1: "fst (Connect False ?gai ''example.org'' ''80'' fresh) = Returns"
    and c2: "closed (calls (Connect False ?gai ''example.org'' ''80'') fresh) =
               List.map_filter created [(info6, refused 3 98)]"
    and c3: "length (closed (calls (Connect False ?gai ''example.org'' ''80'') fresh)) =
               length [(info6, refused 3 98)]"
    by auto
  have "List.map_filter created [(info6, refused 3 98)] = [3]"
    by (simp add: List.map_filter_def created_def refused_def all_ok_def)
  with b c b1 b2 b3 c1 c2 c3 show ?thesis by simp
qed

text \<open>
  C5 as stated fails when an entry fails at \<^verbatim>\<open>socket\<close>: there is no descriptor to
  close. With two entries, the first failing at \<^verbatim>\<open>socket\<close>, the call succeeds and
  closes nothing, not N - 1 = 1 descriptor.
\<close>

theorem socket_failure_closes_nothing:
  "Bind_resolved (answering 0 unsupported_then_ok) ''example.org'' ''80'' AF_UNSPEC =
      (0, unsupported_then_ok)
   \<and> Connect_resolved (answering 0 unsupported_then_ok) ''example.org'' ''80'' =
      (0, unsupported_then_ok)
   \<and> unsupported_then_ok = [(info6, no_socket 97), (info4, all_ok 3)]
   \<and> Bind_failure (info6, no_socket 97) = Some (''socket'', 97)
   \<and> Bind_failure (info4, all_ok 3) = None
   \<and> Connect_failure (info6, no_socket 97) = Some (''socket'', 97)
   \<and> Connect_failure (info4, all_ok 3) = None
   \<and> fst (Bind False (answering 0 unsupported_then_ok) ''example.org'' ''80'' AF_UNSPEC fresh) =
        Returns
   \<and> fst (Connect False (answering 0 unsupported_then_ok) ''example.org'' ''80'' fresh) = Returns
   \<and> closed (calls (Bind False (answering 0 unsupported_then_ok) ''example.org'' ''80''
        AF_UNSPEC) fresh) = []
   \<and> closed (calls (Connect False (answering 0 unsupported_then_ok) ''example.org'' ''80'')
        fresh) = []
   \<and> length (closed (calls (Bind False (answering 0 unsupported_then_ok) ''example.org'' ''80''
        AF_UNSPEC) fresh)) \<noteq> length unsupported_then_ok - 1
   \<and> length (closed (calls (Connect False (answering 0 unsupported_then_ok) ''example.org''
        ''80'') fresh)) \<noteq> length unsupported_then_ok - 1"
  by (simp add: run_defs Bind_resolved_def Connect_resolved_def Bind_failure_def
      Connect_failure_def closed_def)

subsection \<open>The release of the result list\<close>

lemma filter_free_loop:
  "Ev_freeaddrinfo \<notin> set evs \<Longrightarrow> filter (\<lambda>ev. ev = Ev_freeaddrinfo) evs = []"
  by (induction evs) auto

lemma dropWhile_free:
  "Ev_freeaddrinfo \<notin> set evs \<Longrightarrow>
   dropWhile (\<lambda>ev. ev \<noteq> Ev_freeaddrinfo) (evs @ Ev_freeaddrinfo # rest) = Ev_freeaddrinfo # rest"
  by (induction evs) auto

text \<open>
  C6: when \<^verbatim>\<open>getaddrinfo\<close> returns 0, \<^verbatim>\<open>freeaddrinfo\<close> is called exactly once, and
  nothing follows it but the log entry of the terminal \<^verbatim>\<open>socket_error\<close> when one is
  thrown: every call of the loop comes before it. When \<^verbatim>\<open>getaddrinfo\<close> fails,
  \<^verbatim>\<open>freeaddrinfo\<close> is not called.
\<close>

theorem result_list_is_freed_once:
  "(fst (Bind_resolved gai node service family) = 0 \<longrightarrow>
      length (filter (\<lambda>ev. ev = Ev_freeaddrinfo) (calls (Bind win32 gai node service family) st))
        = 1
      \<and> dropWhile (\<lambda>ev. ev \<noteq> Ev_freeaddrinfo) (calls (Bind win32 gai node service family) st) =
          Ev_freeaddrinfo #
          (case fst (Bind win32 gai node service family st) of
             Throws x \<Rightarrow> [Ev_Log_critical ''TcpSocket''] | _ \<Rightarrow> []))
   \<and> (fst (Bind_resolved gai node service family) \<noteq> 0 \<longrightarrow>
      filter (\<lambda>ev. ev = Ev_freeaddrinfo) (calls (Bind win32 gai node service family) st) = [])
   \<and> (fst (Connect_resolved gai node service) = 0 \<longrightarrow>
      length (filter (\<lambda>ev. ev = Ev_freeaddrinfo) (calls (Connect win32 gai node service) st)) = 1
      \<and> dropWhile (\<lambda>ev. ev \<noteq> Ev_freeaddrinfo) (calls (Connect win32 gai node service) st) =
          Ev_freeaddrinfo #
          (case fst (Connect win32 gai node service st) of
             Throws x \<Rightarrow> [Ev_Log_critical ''TcpSocket''] | _ \<Rightarrow> []))
   \<and> (fst (Connect_resolved gai node service) \<noteq> 0 \<longrightarrow>
      filter (\<lambda>ev. ev = Ev_freeaddrinfo) (calls (Connect win32 gai node service) st) = [])"
  using
    filter_free_loop [OF Bind_loop_events_free,
      of win32 "snd (Bind_resolved gai node service family)"]
    filter_free_loop [OF Connect_loop_events_free, of "snd (Connect_resolved gai node service)"]
    dropWhile_free [OF Bind_loop_events_free,
      of win32 "snd (Bind_resolved gai node service family)"]
    dropWhile_free [OF Connect_loop_events_free, of "snd (Connect_resolved gai node service)"]
  by (simp add: Bind_calls Connect_calls split: outcome.splits)

text \<open>A run of C6: all entries fail, the list is freed once, then the error is logged.\<close>

theorem result_list_witness:
  "fst (Bind_resolved (answering 0 both_fail) ''example.org'' ''80'' AF_UNSPEC) = 0
   \<and> fst (Bind False (answering 0 both_fail) ''example.org'' ''80'' AF_UNSPEC fresh) =
        Throws (socket_error ''bind'' (errinfo_errno 98))
   \<and> length (filter (\<lambda>ev. ev = Ev_freeaddrinfo)
        (calls (Bind False (answering 0 both_fail) ''example.org'' ''80'' AF_UNSPEC) fresh)) = 1
   \<and> dropWhile (\<lambda>ev. ev \<noteq> Ev_freeaddrinfo)
        (calls (Bind False (answering 0 both_fail) ''example.org'' ''80'' AF_UNSPEC) fresh) =
        [Ev_freeaddrinfo, Ev_Log_critical ''TcpSocket'']
   \<and> fst (Connect_resolved (answering 0 refused_then_ok) ''example.org'' ''80'') = 0
   \<and> fst (Connect False (answering 0 refused_then_ok) ''example.org'' ''80'' fresh) = Returns
   \<and> length (filter (\<lambda>ev. ev = Ev_freeaddrinfo)
        (calls (Connect False (answering 0 refused_then_ok) ''example.org'' ''80'') fresh)) = 1
   \<and> dropWhile (\<lambda>ev. ev \<noteq> Ev_freeaddrinfo)
        (calls (Connect False (answering 0 refused_then_ok) ''example.org'' ''80'') fresh) =
        [Ev_freeaddrinfo]
   \<and> fst (Bind_resolved (answering (- 2) []) ''nonexistent.invalid'' ''80'' AF_UNSPEC) \<noteq> 0
   \<and> filter (\<lambda>ev. ev = Ev_freeaddrinfo)
        (calls (Bind False (answering (- 2) []) ''nonexistent.invalid'' ''80'' AF_UNSPEC) fresh) =
        []
   \<and> fst (Connect_resolved (answering (- 2) []) ''nonexistent.invalid'' ''80'') \<noteq> 0
   \<and> filter (\<lambda>ev. ev = Ev_freeaddrinfo)
        (calls (Connect False (answering (- 2) []) ''nonexistent.invalid'' ''80'') fresh) = []"
proof -
  have out: "fst (Bind False (answering 0 both_fail) ''example.org'' ''80'' AF_UNSPEC fresh) =
        Throws (socket_error ''bind'' (errinfo_errno 98))"
    "fst (Connect False (answering 0 refused_then_ok) ''example.org'' ''80'' fresh) = Returns"
    by (simp_all add: run_defs)
  have r: "fst (Bind_resolved (answering 0 both_fail) ''example.org'' ''80'' AF_UNSPEC) = 0"
    "fst (Connect_resolved (answering 0 refused_then_ok) ''example.org'' ''80'') = 0"
    "fst (Bind_resolved (answering (- 2) []) ''nonexistent.invalid'' ''80'' AF_UNSPEC) \<noteq> 0"
    "fst (Connect_resolved (answering (- 2) []) ''nonexistent.invalid'' ''80'') \<noteq> 0"
    by (simp_all add: Bind_resolved_def Connect_resolved_def answering_def)
  from result_list_is_freed_once
    [of "answering 0 both_fail" "''example.org''" "''80''" AF_UNSPEC False fresh] r(1)
  have "length (filter (\<lambda>ev. ev = Ev_freeaddrinfo)
        (calls (Bind False (answering 0 both_fail) ''example.org'' ''80'' AF_UNSPEC) fresh)) = 1"
    and "dropWhile (\<lambda>ev. ev \<noteq> Ev_freeaddrinfo)
        (calls (Bind False (answering 0 both_fail) ''example.org'' ''80'' AF_UNSPEC) fresh) =
        Ev_freeaddrinfo #
          (case fst (Bind False (answering 0 both_fail) ''example.org'' ''80'' AF_UNSPEC fresh) of
             Throws x \<Rightarrow> [Ev_Log_critical ''TcpSocket''] | _ \<Rightarrow> [])"
    by blast+
  moreover from result_list_is_freed_once
    [of "answering 0 refused_then_ok" "''example.org''" "''80''" AF_UNSPEC False fresh] r(2)
  have "length (filter (\<lambda>ev. ev = Ev_freeaddrinfo)
        (calls (Connect False (answering 0 refused_then_ok) ''example.org'' ''80'') fresh)) = 1"
    and "dropWhile (\<lambda>ev. ev \<noteq> Ev_freeaddrinfo)
        (calls (Connect False (answering 0 refused_then_ok) ''example.org'' ''80'') fresh) =
        Ev_freeaddrinfo #
          (case fst (Connect False (answering 0 refused_then_ok) ''example.org'' ''80'' fresh) of
             Throws x \<Rightarrow> [Ev_Log_critical ''TcpSocket''] | _ \<Rightarrow> [])"
    by blast+
  moreover from result_list_is_freed_once
    [of "answering (- 2) []" "''nonexistent.invalid''" "''80''" AF_UNSPEC False fresh] r(3,4)
  have "filter (\<lambda>ev. ev = Ev_freeaddrinfo)
        (calls (Bind False (answering (- 2) []) ''nonexistent.invalid'' ''80'' AF_UNSPEC) fresh) =
        []"
    and "filter (\<lambda>ev. ev = Ev_freeaddrinfo)
        (calls (Connect False (answering (- 2) []) ''nonexistent.invalid'' ''80'') fresh) = []"
    by blast+
  ultimately show ?thesis using out r by simp
qed

subsection \<open>The request to the resolver\<close>

lemma Bind_loop_events_getaddrinfo: "filter is_getaddrinfo (Bind_loop_events win32 cs) = []"
  by (induction cs)
     (auto simp add: Bind_events_def Let_def is_getaddrinfo_def split: sysres.splits)

lemma Connect_loop_events_getaddrinfo: "filter is_getaddrinfo (Connect_loop_events cs) = []"
  by (induction cs)
     (auto simp add: Connect_events_def Let_def is_getaddrinfo_def split: sysres.splits)

text \<open>
  C7: the first call of \<^verbatim>\<open>Bind\<close> is its only \<^verbatim>\<open>getaddrinfo\<close>, with the flag
  \<^verbatim>\<open>AI_PASSIVE\<close> in the hints; the node is \<^verbatim>\<open>NULL\<close> when the host is empty (as it
  is in the overload without a node) and the host text otherwise; and the call depends
  on the resolver through the answer to that request only.
\<close>

theorem Bind_resolves_in_passive_mode:
  "take 1 (calls (Bind win32 gai [] service family) st) =
     [Ev_getaddrinfo None service
        \<lparr>ai_flags = AI_PASSIVE, ai_family = family, ai_socktype = SOCK_STREAM,
         ai_protocol = IPPROTO_TCP, ai_addrlen = 0, ai_addr = []\<rparr>]
   \<and> Bind_service win32 gai service family st = Bind win32 gai [] service family st
   \<and> (node \<noteq> [] \<longrightarrow>
      take 1 (calls (Bind win32 gai node service family) st) =
        [Ev_getaddrinfo (Some node) service
           \<lparr>ai_flags = AI_PASSIVE, ai_family = family, ai_socktype = SOCK_STREAM,
            ai_protocol = IPPROTO_TCP, ai_addrlen = 0, ai_addr = []\<rparr>])
   \<and> length (filter is_getaddrinfo (calls (Bind win32 gai node service family) st)) = 1
   \<and> Bind win32 gai node service family st =
      Bind win32
        (\<lambda>n s h. gai (if node = [] then None else Some node) service
           \<lparr>ai_flags = AI_PASSIVE, ai_family = family, ai_socktype = SOCK_STREAM,
            ai_protocol = IPPROTO_TCP, ai_addrlen = 0, ai_addr = []\<rparr>)
        node service family st"
proof -
  have "length (filter is_getaddrinfo (calls (Bind win32 gai node service family) st)) = 1"
    by (simp add: Bind_calls Bind_loop_events_getaddrinfo is_getaddrinfo_def
        split: outcome.splits)
  moreover have "Bind win32 gai node service family st =
      Bind win32
        (\<lambda>n s h. gai (if node = [] then None else Some node) service
           \<lparr>ai_flags = AI_PASSIVE, ai_family = family, ai_socktype = SOCK_STREAM,
            ai_protocol = IPPROTO_TCP, ai_addrlen = 0, ai_addr = []\<rparr>)
        node service family st"
    by (simp add: Bind_def getaddrinfo_def Bind_node_def Bind_hints_def)
  ultimately show ?thesis
    by (simp add: Bind_calls Bind_node_def Bind_hints_def Bind_service_def)
qed

text \<open>A run of C7 with a host, and one without.\<close>

theorem Bind_passive_witness:
  "''example.org'' \<noteq> []
   \<and> take 1 (calls (Bind False (answering 0 refused_then_ok) ''example.org'' ''5665'' AF_UNSPEC)
        fresh) =
      [Ev_getaddrinfo (Some ''example.org'') ''5665''
         \<lparr>ai_flags = AI_PASSIVE, ai_family = AF_UNSPEC, ai_socktype = SOCK_STREAM,
          ai_protocol = IPPROTO_TCP, ai_addrlen = 0, ai_addr = []\<rparr>]
   \<and> take 1 (calls (Bind False (answering 0 refused_then_ok) [] ''5665'' AF_UNSPEC) fresh) =
      [Ev_getaddrinfo None ''5665''
         \<lparr>ai_flags = AI_PASSIVE, ai_family = AF_UNSPEC, ai_socktype = SOCK_STREAM,
          ai_protocol = IPPROTO_TCP, ai_addrlen = 0, ai_addr = []\<rparr>]"
  using Bind_resolves_in_passive_mode
    [of False "answering 0 refused_then_ok" "''5665''" AF_UNSPEC fresh "''example.org''"]
  by simp

text \<open>
  C10: the first call of \<^verbatim>\<open>Connect\<close> is its only \<^verbatim>\<open>getaddrinfo\<close>, with the family
  \<^verbatim>\<open>AF_UNSPEC\<close>, no flag, and the node text as it is; the call depends on the
  resolver through the answer to that request only. An empty node is passed as the empty
  name, where \<^verbatim>\<open>Bind\<close> passes \<^verbatim>\<open>NULL\<close>.
\<close>

theorem Connect_resolves_the_node_as_given:
  "take 1 (calls (Connect win32 gai node service) st) =
     [Ev_getaddrinfo (Some node) service
        \<lparr>ai_flags = 0, ai_family = AF_UNSPEC, ai_socktype = SOCK_STREAM,
         ai_protocol = IPPROTO_TCP, ai_addrlen = 0, ai_addr = []\<rparr>]
   \<and> length (filter is_getaddrinfo (calls (Connect win32 gai node service) st)) = 1
   \<and> Connect win32 gai node service st =
      Connect win32
        (\<lambda>n s h. gai (Some node) service
           \<lparr>ai_flags = 0, ai_family = AF_UNSPEC, ai_socktype = SOCK_STREAM,
            ai_protocol = IPPROTO_TCP, ai_addrlen = 0, ai_addr = []\<rparr>)
        node service st
   \<and> take 1 (calls (Connect win32 gai [] service) st) =
     [Ev_getaddrinfo (Some []) service
        \<lparr>ai_flags = 0, ai_family = AF_UNSPEC, ai_socktype = SOCK_STREAM,
         ai_protocol = IPPROTO_TCP, ai_addrlen = 0, ai_addr = []\<rparr>]
   \<and> take 1 (calls (Bind win32 gai [] service family) st) =
     [Ev_getaddrinfo None service
        \<lparr>ai_flags = AI_PASSIVE, ai_family = family, ai_socktype = SOCK_STREAM,
         ai_protocol = IPPROTO_TCP, ai_addrlen = 0, ai_addr = []\<rparr>]"
proof -
  have "length (filter is_getaddrinfo (calls (Connect win32 gai node service) st)) = 1"
    by (simp add: Connect_calls Connect_loop_events_getaddrinfo is_getaddrinfo_def
        split: outcome.splits)
  moreover have "Connect win32 gai node service st =
      Connect win32
        (\<lambda>n s h. gai (Some node) service
           \<lparr>ai_flags = 0, ai_family = AF_UNSPEC, ai_socktype = SOCK_STREAM,
            ai_protocol = IPPROTO_TCP, ai_addrlen = 0, ai_addr = []\<rparr>)
        node service st"
    by (simp add: Connect_def getaddrinfo_def Connect_hints_def)
  ultimately show ?thesis
    by (simp add: Connect_calls Bind_calls Connect_hints_def Bind_node_def Bind_hints_def)
qed

text \<open>A run of C10 with the empty node, and one with a host.\<close>

theorem Connect_node_witness:
  "take 1 (calls (Connect False (answering (- 2) []) [] ''80'') fresh) =
     [Ev_getaddrinfo (Some []) ''80''
        \<lparr>ai_flags = 0, ai_family = AF_UNSPEC, ai_socktype = SOCK_STREAM,
         ai_protocol = IPPROTO_TCP, ai_addrlen = 0, ai_addr = []\<rparr>]
   \<and> take 1 (calls (Connect False (answering (- 2) []) ''example.org'' ''80'') fresh) =
     [Ev_getaddrinfo (Some ''example.org'') ''80''
        \<lparr>ai_flags = 0, ai_family = AF_UNSPEC, ai_socktype = SOCK_STREAM,
         ai_protocol = IPPROTO_TCP, ai_addrlen = 0, ai_addr = []\<rparr>]"
  using Connect_resolves_the_node_as_given
    [of False "answering (- 2) []" "''example.org''" "''80''" fresh AF_UNSPEC]
  by simp

subsection \<open>The locals of the branch after the loop\<close>

lemma Bind_loop_invalid:
  "m_FD (Bind_loop win32 cs st) = INVALID_SOCKET \<Longrightarrow> \<forall>c\<in>set cs. Bind_failure c \<noteq> None"
proof (induction cs arbitrary: st)
  case Nil
  then show ?case by simp
next
  case (Cons c cs)
  show ?case
  proof (cases "Bind_failure c = None")
    case True
    then obtain d where "created c = Some (int d)"
      using Bind_success_created by blast
    with True Cons.prems show ?thesis
      by (simp add: Bind_loop_Cons Bind_body_m_FD INVALID_SOCKET_def del: Bind_loop.simps(2))
  next
    case False
    with Cons show ?thesis
      by (simp add: Bind_loop_Cons del: Bind_loop.simps(2))
  qed
qed

lemma Connect_loop_invalid:
  "m_FD (Connect_loop win32 cs st) = INVALID_SOCKET \<Longrightarrow> \<forall>c\<in>set cs. Connect_failure c \<noteq> None"
proof (induction cs arbitrary: st)
  case Nil
  then show ?case by simp
next
  case (Cons c cs)
  show ?case
  proof (cases "Connect_failure c = None")
    case True
    then obtain d where "created c = Some (int d)"
      using Connect_success_created by blast
    with True Cons.prems show ?thesis
      by (simp add: Connect_loop_Cons Connect_body_m_FD INVALID_SOCKET_def
          del: Connect_loop.simps(2))
  next
    case False
    with Cons show ?thesis
      by (simp add: Connect_loop_Cons del: Connect_loop.simps(2))
  qed
qed

lemma Bind_loop_written:
  assumes "cs \<noteq> []" and "m_FD (Bind_loop win32 cs st) = INVALID_SOCKET"
  shows "func (Bind_loop win32 cs st) \<noteq> None \<and> error (Bind_loop win32 cs st) \<noteq> None"
proof -
  have fail: "\<forall>c\<in>set cs. Bind_failure c \<noteq> None"
    using assms(2) by (rule Bind_loop_invalid)
  with assms(1) obtain f e where last: "Bind_failure (last cs) = Some (f, e)"
    by (metis last_in_set not_Some_eq surj_pair)
  have "\<forall>c\<in>set (butlast cs). Bind_failure c \<noteq> None"
    using fail by (meson in_set_butlastD)
  from Bind_loop_fail_recorded [OF this last, of win32 st] assms(1)
  show ?thesis by simp
qed

lemma Connect_loop_written:
  assumes "cs \<noteq> []" and "m_FD (Connect_loop win32 cs st) = INVALID_SOCKET"
  shows "func (Connect_loop win32 cs st) \<noteq> None \<and> error (Connect_loop win32 cs st) \<noteq> None"
proof -
  have fail: "\<forall>c\<in>set cs. Connect_failure c \<noteq> None"
    using assms(2) by (rule Connect_loop_invalid)
  with assms(1) obtain f e where last: "Connect_failure (last cs) = Some (f, e)"
    by (metis last_in_set not_Some_eq surj_pair)
  have "\<forall>c\<in>set (butlast cs). Connect_failure c \<noteq> None"
    using fail by (meson in_set_butlastD)
  from Connect_loop_fail_recorded [OF this last, of win32 st] assms(1)
  show ?thesis by simp
qed

lemma Bind_defined:
  assumes "fst (Bind_resolved gai node service family) = 0"
    and "snd (Bind_resolved gai node service family) \<noteq> []"
  shows "fst (Bind win32 gai node service family st) \<noteq> Undefined_read"
  using assms Bind_loop_written [of "snd (Bind_resolved gai node service family)" win32
    "emit (Ev_getaddrinfo (Bind_node node) service (Bind_hints family))
       (st\<lparr>error := None, func := None\<rparr>)"]
  by (auto simp add: Bind_unfold Let_def emit_def terminal_def)

lemma Connect_defined:
  assumes "fst (Connect_resolved gai node service) = 0"
    and "snd (Connect_resolved gai node service) \<noteq> []"
  shows "fst (Connect win32 gai node service st) \<noteq> Undefined_read"
  using assms Connect_loop_written [of "snd (Connect_resolved gai node service)" win32
    "emit (Ev_getaddrinfo (Some node) service Connect_hints)
       (st\<lparr>error := None, func := None\<rparr>)"]
  by (auto simp add: Connect_unfold Let_def emit_def terminal_def)

text \<open>
  C9: after a loop over at least one entry, whenever the object holds no descriptor (the
  condition of the branch after the loop) both locals have been written; so with a
  non-empty result list \<^verbatim>\<open>Bind\<close> and \<^verbatim>\<open>Connect\<close> never read an unwritten local.
  With the return code 0 and an empty list the branch, which is taken exactly when the
  object holds no descriptor, reads both locals unwritten.
\<close>

theorem locals_written_before_read:
  "(cs \<noteq> [] \<and> m_FD (Bind_loop win32 cs st) = INVALID_SOCKET \<longrightarrow>
      func (Bind_loop win32 cs st) \<noteq> None \<and> error (Bind_loop win32 cs st) \<noteq> None)
   \<and> (fst (Bind_resolved gai node service family) = 0
        \<and> snd (Bind_resolved gai node service family) \<noteq> [] \<longrightarrow>
      fst (Bind win32 gai node service family st) \<noteq> Undefined_read)
   \<and> (Bind_resolved gai node service family = (0, []) \<longrightarrow>
      fst (Bind win32 gai node service family st) =
        (if m_FD st = INVALID_SOCKET then Undefined_read else Returns))
   \<and> (cs \<noteq> [] \<and> m_FD (Connect_loop win32 cs st) = INVALID_SOCKET \<longrightarrow>
      func (Connect_loop win32 cs st) \<noteq> None \<and> error (Connect_loop win32 cs st) \<noteq> None)
   \<and> (fst (Connect_resolved gai node service) = 0
        \<and> snd (Connect_resolved gai node service) \<noteq> [] \<longrightarrow>
      fst (Connect win32 gai node service st) \<noteq> Undefined_read)
   \<and> (Connect_resolved gai node service = (0, []) \<longrightarrow>
      fst (Connect win32 gai node service st) =
        (if m_FD st = INVALID_SOCKET then Undefined_read else Returns))"
  using Bind_loop_written [of cs win32 st] Connect_loop_written [of cs win32 st]
    Bind_defined [of gai node service family win32 st]
    Connect_defined [of gai node service win32 st]
  by (simp add: Bind_unfold Connect_unfold Let_def emit_def terminal_def)

text \<open>A run of C9 on two failing entries, and one on the empty list.\<close>

theorem locals_written_witness:
  "both_fail \<noteq> []
   \<and> m_FD (Bind_loop False both_fail fresh) = INVALID_SOCKET
   \<and> func (Bind_loop False both_fail fresh) = Some ''bind''
   \<and> error (Bind_loop False both_fail fresh) = Some 98
   \<and> m_FD (Connect_loop False both_fail fresh) = INVALID_SOCKET
   \<and> func (Connect_loop False both_fail fresh) = Some ''connect''
   \<and> error (Connect_loop False both_fail fresh) = Some 98
   \<and> Bind_resolved (answering 0 both_fail) ''example.org'' ''80'' AF_UNSPEC = (0, both_fail)
   \<and> fst (Bind False (answering 0 both_fail) ''example.org'' ''80'' AF_UNSPEC fresh) \<noteq>
        Undefined_read
   \<and> Connect_resolved (answering 0 both_fail) ''example.org'' ''80'' = (0, both_fail)
   \<and> fst (Connect False (answering 0 both_fail) ''example.org'' ''80'' fresh) \<noteq> Undefined_read
   \<and> Bind_resolved (answering 0 []) ''example.org'' ''80'' AF_UNSPEC = (0, [])
   \<and> m_FD fresh = INVALID_SOCKET
   \<and> fst (Bind False (answering 0 []) ''example.org'' ''80'' AF_UNSPEC fresh) = Undefined_read
   \<and> Connect_resolved (answering 0 []) ''example.org'' ''80'' = (0, [])
   \<and> fst (Connect False (answering 0 []) ''example.org'' ''80'' fresh) = Undefined_read"
proof -
  have ne: "both_fail \<noteq> []"
    by (simp add: both_fail_def)
  have loop: "m_FD (Bind_loop False both_fail fresh) = INVALID_SOCKET"
    "func (Bind_loop False both_fail fresh) = Some ''bind''"
    "error (Bind_loop False both_fail fresh) = Some 98"
    "m_FD (Connect_loop False both_fail fresh) = INVALID_SOCKET"
    "func (Connect_loop False both_fail fresh) = Some ''connect''"
    "error (Connect_loop False both_fail fresh) = Some 98"
    by (simp_all add: run_defs)
  have res: "Bind_resolved (answering 0 both_fail) ''example.org'' ''80'' AF_UNSPEC = (0, both_fail)"
    "Connect_resolved (answering 0 both_fail) ''example.org'' ''80'' = (0, both_fail)"
    "Bind_resolved (answering 0 []) ''example.org'' ''80'' AF_UNSPEC = (0, [])"
    "Connect_resolved (answering 0 []) ''example.org'' ''80'' = (0, [])"
    by (simp_all add: Bind_resolved_def Connect_resolved_def answering_def)
  have fd: "m_FD fresh = INVALID_SOCKET"
    by (simp add: fresh_def)
  from locals_written_before_read
    [of both_fail False fresh "answering 0 both_fail" "''example.org''" "''80''" AF_UNSPEC]
    ne res(1,2)
  have "fst (Bind False (answering 0 both_fail) ''example.org'' ''80'' AF_UNSPEC fresh) \<noteq>
        Undefined_read"
    and "fst (Connect False (answering 0 both_fail) ''example.org'' ''80'' fresh) \<noteq>
        Undefined_read"
    by simp_all
  moreover from locals_written_before_read
    [of both_fail False fresh "answering 0 []" "''example.org''" "''80''" AF_UNSPEC] res(3,4) fd
  have "fst (Bind False (answering 0 []) ''example.org'' ''80'' AF_UNSPEC fresh) = Undefined_read"
    and "fst (Connect False (answering 0 []) ''example.org'' ''80'' fresh) = Undefined_read"
    by simp_all
  ultimately show ?thesis using ne loop res fd by simp
qed

subsection \<open>The socket options of Bind\<close>










end
